theory Spec2Isabelle
  imports Complex_Main
begin

text \<open>
  A model of the notebook \<open>emukit/examples/multi_fidelity_dgp/benchmarking_examples.ipynb\<close>:
  the data generator \<open>generate_data\<close>, the metric calculator \<open>calculate_metrics\<close>,
  the table printer \<open>print_metrics\<close> and the drivers \<open>benchmark_models\<close>,
  \<open>test_function\<close> and \<open>do_benchmark\<close>. The sampling library, the test functions and
  the regression models are outside the notebook and enter as parameters. Exceptions are
  results (\<open>Inl\<close>), the random generator and the printed output are threaded as state.
\<close>

section \<open>Numbers and arrays\<close>

text \<open>
  The notebook computes with numpy float64 arrays. A float is modelled as a real
  number or one of the three non-finite values numpy produces without raising
  (a zero divisor gives inf or nan and a RuntimeWarning, never an exception).
  Rounding, overflow and the sign of zero are not modelled: finite arithmetic is
  exact. No property below cancels a product against a quotient for that reason: a
  value the code computes as \<open>(x / s) * s\<close> is stated as that product, and is
  equated with \<open>x\<close> only for \<open>s = 1\<close>, where floats agree.
\<close>

datatype npfloat = Fin real | PInf | NInf | NaN

fun fneg :: "npfloat \<Rightarrow> npfloat" where
  "fneg (Fin a) = Fin (- a)"
| "fneg PInf = NInf"
| "fneg NInf = PInf"
| "fneg NaN = NaN"

fun fadd :: "npfloat \<Rightarrow> npfloat \<Rightarrow> npfloat" where
  "fadd (Fin a) (Fin b) = Fin (a + b)"
| "fadd NaN _ = NaN"
| "fadd _ NaN = NaN"
| "fadd PInf NInf = NaN"
| "fadd NInf PInf = NaN"
| "fadd PInf _ = PInf"
| "fadd _ PInf = PInf"
| "fadd NInf _ = NInf"
| "fadd _ NInf = NInf"

definition fsub :: "npfloat \<Rightarrow> npfloat \<Rightarrow> npfloat" where
  "fsub a b = fadd a (fneg b)"

text \<open>The infinity with the sign of a nonzero real.\<close>

definition inf_of_sign :: "real \<Rightarrow> npfloat" where
  "inf_of_sign a = (if 0 < a then PInf else NInf)"

fun fmul :: "npfloat \<Rightarrow> npfloat \<Rightarrow> npfloat" where
  "fmul (Fin a) (Fin b) = Fin (a * b)"
| "fmul NaN _ = NaN"
| "fmul _ NaN = NaN"
| "fmul (Fin a) PInf = (if a = 0 then NaN else inf_of_sign a)"
| "fmul (Fin a) NInf = (if a = 0 then NaN else inf_of_sign (- a))"
| "fmul PInf (Fin b) = (if b = 0 then NaN else inf_of_sign b)"
| "fmul NInf (Fin b) = (if b = 0 then NaN else inf_of_sign (- b))"
| "fmul PInf PInf = PInf"
| "fmul PInf NInf = NInf"
| "fmul NInf PInf = NInf"
| "fmul NInf NInf = PInf"

text \<open>
  Division: a finite nonzero value over zero is an infinity, zero over zero and
  infinity over infinity are nan, a finite value over an infinity is zero.
\<close>

fun fdiv :: "npfloat \<Rightarrow> npfloat \<Rightarrow> npfloat" where
  "fdiv (Fin a) (Fin b) =
     (if b = 0 then (if a = 0 then NaN else inf_of_sign a) else Fin (a / b))"
| "fdiv NaN _ = NaN"
| "fdiv _ NaN = NaN"
| "fdiv (Fin a) PInf = Fin 0"
| "fdiv (Fin a) NInf = Fin 0"
| "fdiv PInf (Fin b) = (if b < 0 then NInf else PInf)"
| "fdiv NInf (Fin b) = (if b < 0 then PInf else NInf)"
| "fdiv PInf _ = NaN"
| "fdiv NInf _ = NaN"

fun fsqrt :: "npfloat \<Rightarrow> npfloat" where
  "fsqrt (Fin a) = (if a < 0 then NaN else Fin (sqrt a))"
| "fsqrt PInf = PInf"
| "fsqrt NInf = NaN"
| "fsqrt NaN = NaN"

fun is_finite :: "npfloat \<Rightarrow> bool" where
  "is_finite (Fin a) = True"
| "is_finite _ = False"

fun real_of :: "npfloat \<Rightarrow> real" where
  "real_of (Fin a) = a"
| "real_of _ = 0"

text \<open>
  A two-dimensional array carries its number of columns (numpy's \<open>shape[1]\<close>, which
  an array with no rows still has) and its rows; every row of a well-formed array
  has \<open>ncols\<close> entries. An (n, 1) array, such as the outputs of a test function or
  a model's predictions, is a column: the list of its n entries.
\<close>

record ndarray =
  ncols :: nat
  rows :: "npfloat list list"

type_synonym column = "npfloat list"

definition wf_array :: "ndarray \<Rightarrow> bool" where
  "wf_array x = list_all (\<lambda>row. length row = ncols x) (rows x)"

definition np_sum :: "npfloat list \<Rightarrow> npfloat" where
  "np_sum xs = foldr fadd xs (Fin 0)"

definition np_mean :: "npfloat list \<Rightarrow> npfloat" where
  "np_mean xs = fdiv (np_sum xs) (Fin (real (length xs)))"

text \<open>\<open>x.std()\<close> of a one-dimensional slice: the root of the mean squared deviation.\<close>

definition np_std :: "npfloat list \<Rightarrow> npfloat" where
  "np_std xs =
     fsqrt (np_mean (map (\<lambda>v. fmul (fsub v (np_mean xs)) (fsub v (np_mean xs))) xs))"

text \<open>\<open>x.std(axis=0)\<close>: one standard deviation per column.\<close>

definition np_std_axis0 :: "ndarray \<Rightarrow> npfloat list" where
  "np_std_axis0 x = map (\<lambda>j. np_std (map (\<lambda>row. row ! j) (rows x))) [0..<ncols x]"

definition np_ones :: "nat \<Rightarrow> npfloat list" where
  "np_ones n = replicate n (Fin 1)"

text \<open>
  \<open>x / v\<close> and \<open>x * v\<close> of an (n, d) array and a vector of d entries: each row is
  combined entry by entry with the vector (numpy's broadcasting).
\<close>

definition div_rows :: "ndarray \<Rightarrow> npfloat list \<Rightarrow> ndarray" where
  "div_rows x v = x\<lparr>rows := map (\<lambda>row. map2 fdiv row v) (rows x)\<rparr>"

definition mul_rows :: "ndarray \<Rightarrow> npfloat list \<Rightarrow> ndarray" where
  "mul_rows x v = x\<lparr>rows := map (\<lambda>row. map2 fmul row v) (rows x)\<rparr>"

text \<open>\<open>np.concatenate([x, c], axis=1)\<close> of an (n, d) array and an (n, 1) column.\<close>

definition concatenate_axis1 :: "ndarray \<Rightarrow> column \<Rightarrow> ndarray" where
  "concatenate_axis1 x c =
     \<lparr>ncols = ncols x + 1, rows = map2 (\<lambda>row v. row @ [v]) (rows x) c\<rparr>"

section \<open>Errors, descriptors and the outside world\<close>

datatype py_error = IndexError | KeyError | ValueError | LibraryError string

text \<open>
  The namedtuple \<open>Function\<close>. Its field \<open>fcn\<close> is a factory of the test-function
  library; calling it gives the per-fidelity functions \<open>fcn.f\<close> and the parameter
  space, and the field holds that pair.
\<close>

record 's Function =
  name :: string
  y_scale :: npfloat
  noise_level :: "npfloat list"
  do_x_scaling :: bool
  num_data :: "nat list"
  fcn :: "(ndarray \<Rightarrow> column) list \<times> 's"

text \<open>
  What the notebook prints, in order. The state of a run is the state of numpy's
  global random number generator and the printed output.
\<close>

datatype printed =
    PrintShape "nat \<times> nat"
  | PrintLine string
  | PrintR2 string npfloat
  | PrintAfterRuns nat string
  | PrintTable "string list" "(string \<times> npfloat list) list"

record 'r world =
  rng :: 'r
  stdout :: "printed list"

text \<open>
  The sampling library, of which only calls are in the notebook:
  \<open>LatinDesign(space).get_samples(n)\<close>, \<open>np.random.randn(n, 1)\<close> and
  \<open>np.random.seed(seed)\<close>. The first two read and advance the generator state.
  The values they draw and the state they leave are parameters: \<open>latin_points\<close> gives
  the entry at a row and a column, \<open>standard_normal\<close> the entry at an index.
\<close>

record ('s, 'r) sampler =
  space_dim :: "'s \<Rightarrow> nat"
  latin_points :: "'s \<Rightarrow> nat \<Rightarrow> 'r \<Rightarrow> (nat \<Rightarrow> nat \<Rightarrow> npfloat) \<times> 'r"
  standard_normal :: "nat \<Rightarrow> 'r \<Rightarrow> (nat \<Rightarrow> npfloat) \<times> 'r"
  random_seed :: "nat \<Rightarrow> 'r"

text \<open>
  Modelled from the spec: \<open>LatinDesign.get_samples\<close> is not among the sources. It
  draws n points of the parameter space, so the array has n rows and one column per
  dimension of the space.
\<close>

definition get_samples :: "('s, 'r) sampler \<Rightarrow> 's \<Rightarrow> nat \<Rightarrow> 'r \<Rightarrow> ndarray \<times> 'r" where
  "get_samples smp space n r =
     (let (point, r') = latin_points smp space n r
      in (\<lparr>ncols = space_dim smp space,
           rows = map (\<lambda>i. map (point i) [0..<space_dim smp space]) [0..<n]\<rparr>, r'))"

text \<open>\<open>np.random.randn(k, 1)\<close>: a column of k draws.\<close>

definition randn :: "('s, 'r) sampler \<Rightarrow> nat \<Rightarrow> 'r \<Rightarrow> column \<times> 'r" where
  "randn smp k r = (let (draw, r') = standard_normal smp k r in (map draw [0..<k], r'))"

section \<open>generate_data\<close>

text \<open>\<open>X = [latin.get_samples(n) for n in fcn_tuple.num_data]\<close>\<close>

fun sample_all :: "('s, 'r) sampler \<Rightarrow> 's \<Rightarrow> nat list \<Rightarrow> 'r \<Rightarrow> ndarray list \<times> 'r" where
  "sample_all smp space [] r = ([], r)"
| "sample_all smp space (n # ns) r =
     (let (x, r') = get_samples smp space n r;
          (xs, r'') = sample_all smp space ns r'
      in (x # xs, r''))"

text \<open>
  \<open>for i, x in enumerate(X): Y.append(fcn.f[i](x * scalings))\<close>; \<open>fcn.f[i]\<close>
  raises IndexError when there are fewer functions than sample sets.
\<close>

fun eval_fidelities ::
  "(ndarray \<Rightarrow> column) list \<Rightarrow> nat \<Rightarrow> ndarray list \<Rightarrow> npfloat list \<Rightarrow> py_error + column list"
where
  "eval_fidelities fs i [] scalings = Inr []"
| "eval_fidelities fs i (x # X) scalings =
     (if i < length fs then
        (case eval_fidelities fs (i + 1) X scalings of
           Inl e \<Rightarrow> Inl e
         | Inr Y \<Rightarrow> Inr ((fs ! i) (mul_rows x scalings) # Y))
      else Inl IndexError)"

text \<open>
  \<open>for y, std_noise in zip(Y, noise_levels):
       y /= y_scale + std_noise * np.random.randn(y.shape[0], 1)\<close>.
  The loop stops at the shorter of the two lists; the outputs beyond it stay as they
  are.
\<close>

definition noisy_divisor :: "npfloat \<Rightarrow> npfloat \<Rightarrow> column \<Rightarrow> column" where
  "noisy_divisor ys std_noise z = map (\<lambda>v. fadd ys (fmul std_noise v)) z"

fun scale_and_noise ::
  "('s, 'r) sampler \<Rightarrow> npfloat \<Rightarrow> column list \<Rightarrow> npfloat list \<Rightarrow> 'r \<Rightarrow> column list \<times> 'r"
where
  "scale_and_noise smp ys [] nls r = ([], r)"
| "scale_and_noise smp ys (y # Y) [] r = (y # Y, r)"
| "scale_and_noise smp ys (y # Y) (std_noise # nls) r =
     (let (z, r') = randn smp (length y) r;
          y' = map2 fdiv y (noisy_divisor ys std_noise z);
          (Y', r'') = scale_and_noise smp ys Y nls r'
      in (y' # Y', r''))"

text \<open>The four values \<open>generate_data\<close> returns.\<close>

record dataset =
  x_test :: ndarray
  y_test :: column
  X_train :: "ndarray list"
  Y_train :: "column list"

text \<open>
  The body of \<open>generate_data\<close> up to and including the concatenation of the
  fidelity column: every array it returns is built here.
\<close>

definition build_data ::
  "('s, 'r) sampler \<Rightarrow> 's Function \<Rightarrow> nat \<Rightarrow> 'r \<Rightarrow> (py_error + dataset) \<times> 'r"
where
  "build_data smp fcn_tuple n_test_points r =
     (let (fs, space) = fcn fcn_tuple;
          (X, r1) = sample_all smp space (num_data fcn_tuple) r
      in case X of
           [] \<Rightarrow> (Inl IndexError, r1)
         | X0 # _ \<Rightarrow>
             (let scalings = (if do_x_scaling fcn_tuple then np_std_axis0 X0
                              else np_ones (ncols X0));
                  X = map (\<lambda>x. div_rows x scalings) X
              in case eval_fidelities fs 0 X scalings of
                   Inl e \<Rightarrow> (Inl e, r1)
                 | Inr Y \<Rightarrow>
                     (let (Y, r2) =
                            scale_and_noise smp (y_scale fcn_tuple) Y (noise_level fcn_tuple) r1;
                          (xt, r3) = get_samples smp space n_test_points r2;
                          xt = div_rows xt scalings
                      in case fs of
                           [] \<Rightarrow> (Inl IndexError, r3)
                         | _ # _ \<Rightarrow>
                             (let yt = (last fs) (mul_rows xt scalings);
                                  yt = map (\<lambda>v. fdiv v (y_scale fcn_tuple)) yt;
                                  i_highest_fidelity =
                                    map (fmul (Fin (of_int (int (length (num_data fcn_tuple)) - 1))))
                                      (np_ones (length (rows xt)));
                                  xt = concatenate_axis1 xt i_highest_fidelity
                              in (Inr \<lparr>x_test = xt, y_test = yt, X_train = X, Y_train = Y\<rparr>,
                                  r3)))))"

text \<open>
  \<open>generate_data\<close>: the arrays are built, then \<open>print(X[1].shape)\<close> reads the
  second sample set, which raises IndexError when there is none.
\<close>

definition generate_data ::
  "('s, 'r) sampler \<Rightarrow> 's Function \<Rightarrow> nat \<Rightarrow> 'r world \<Rightarrow> (py_error + dataset) \<times> 'r world"
where
  "generate_data smp fcn_tuple n_test_points w =
     (case build_data smp fcn_tuple n_test_points (rng w) of
        (Inl e, r) \<Rightarrow> (Inl e, w\<lparr>rng := r\<rparr>)
      | (Inr d, r) \<Rightarrow>
          (case X_train d of
             x0 # x1 # _ \<Rightarrow>
               (Inr d, w\<lparr>rng := r,
                           stdout := stdout w @ [PrintShape (length (rows x1), ncols x1)]\<rparr>)
           | _ \<Rightarrow> (Inl IndexError, w\<lparr>rng := r\<rparr>)))"

section \<open>What a run of generate_data draws\<close>

text \<open>
  The quantities the properties of \<open>generate_data\<close> are stated in: the samples as
  the sampling library returned them, the scaling vector, the function values before
  the output scaling, and the normal draws. Each is read off the same calls, in the same
  order, as \<open>build_data\<close> makes them.
\<close>

text \<open>The successive calls \<open>np.random.randn(k, 1)\<close> for the sizes \<open>ks\<close>.\<close>

fun noise_draws :: "('s, 'r) sampler \<Rightarrow> nat list \<Rightarrow> 'r \<Rightarrow> column list \<times> 'r" where
  "noise_draws smp [] r = ([], r)"
| "noise_draws smp (k # ks) r =
     (let (z, r') = randn smp k r;
          (zs, r'') = noise_draws smp ks r'
      in (z # zs, r''))"

text \<open>
  The noise loop on outputs \<open>Y\<close> with the draws \<open>zs\<close> given: the outputs at the
  first \<open>length nls\<close> positions are divided, the others are left as they are.
\<close>

definition noised :: "npfloat \<Rightarrow> column list \<Rightarrow> npfloat list \<Rightarrow> column list \<Rightarrow> column list" where
  "noised ys Y nls zs =
     map (\<lambda>i. if i < length nls then map2 fdiv (Y ! i) (noisy_divisor ys (nls ! i) (zs ! i))
                else Y ! i) [0..<length Y]"

text \<open>
  The Latin hypercube samples of the training sets as drawn, before any scaling, and
  the generator state after drawing them.
\<close>

definition training_samples :: "('s, 'r) sampler \<Rightarrow> 's Function \<Rightarrow> 'r \<Rightarrow> ndarray list" where
  "training_samples smp ft r = fst (sample_all smp (snd (fcn ft)) (num_data ft) r)"

definition rng_after_training :: "('s, 'r) sampler \<Rightarrow> 's Function \<Rightarrow> 'r \<Rightarrow> 'r" where
  "rng_after_training smp ft r = snd (sample_all smp (snd (fcn ft)) (num_data ft) r)"

text \<open>
  The vector \<open>scalings\<close>, computed from the first (lowest-fidelity) sample set.
\<close>

definition scaling_vector :: "('s, 'r) sampler \<Rightarrow> 's Function \<Rightarrow> 'r \<Rightarrow> npfloat list" where
  "scaling_vector smp ft r =
     (if do_x_scaling ft then np_std_axis0 (training_samples smp ft r ! 0)
      else np_ones (ncols (training_samples smp ft r ! 0)))"

text \<open>
  The list \<open>Y\<close> after the evaluation loop and before the noise loop.
\<close>

definition function_values :: "('s, 'r) sampler \<Rightarrow> 's Function \<Rightarrow> 'r \<Rightarrow> column list" where
  "function_values smp ft r =
     map (\<lambda>i. (fst (fcn ft) ! i)
                 (mul_rows (div_rows (training_samples smp ft r ! i) (scaling_vector smp ft r))
                    (scaling_vector smp ft r)))
       [0..<length (num_data ft)]"

text \<open>
  The normal draws of the noise loop, one call per pair of \<open>zip(Y, noise_levels)\<close>,
  with the generator state they leave; and the test samples drawn from that state.
\<close>

definition noise_calls :: "('s, 'r) sampler \<Rightarrow> 's Function \<Rightarrow> 'r \<Rightarrow> column list \<times> 'r" where
  "noise_calls smp ft r =
     noise_draws smp (map length (take (length (noise_level ft)) (function_values smp ft r)))
       (rng_after_training smp ft r)"

definition test_samples :: "('s, 'r) sampler \<Rightarrow> 's Function \<Rightarrow> nat \<Rightarrow> 'r \<Rightarrow> ndarray" where
  "test_samples smp ft n r =
     fst (get_samples smp (snd (fcn ft)) n (snd (noise_calls smp ft r)))"

section \<open>calculate_metrics\<close>

text \<open>
  \<open>r2_score\<close> and \<open>mean_squared_error\<close> are scikit-learn's, \<open>norm.logpdf\<close> is
  scipy's; they are modelled by their documented behaviour on columns. Both
  scikit-learn functions first validate their arguments and raise ValueError when the
  two columns differ in length, are empty, or hold a nan or an infinity.
\<close>

definition all_finite :: "column \<Rightarrow> bool" where
  "all_finite xs = list_all is_finite xs"

definition check_reg_targets :: "column \<Rightarrow> column \<Rightarrow> bool" where
  "check_reg_targets y_true y_pred =
     (length y_true = length y_pred \<and> y_true \<noteq> [] \<and> all_finite y_true \<and> all_finite y_pred)"

definition mean_squared_error :: "column \<Rightarrow> column \<Rightarrow> py_error + npfloat" where
  "mean_squared_error y_true y_pred =
     (if check_reg_targets y_true y_pred then
        Inr (Fin (sum_list (map2 (\<lambda>a b. (a - b)\<^sup>2) (map real_of y_true) (map real_of y_pred))
                  / real (length y_true)))
      else Inl ValueError)"

text \<open>
  The coefficient of determination, one minus the residual sum of squares over the
  total sum of squares. For constant targets (total sum 0) the library returns 1 when
  the residuals are 0 too, and 0 otherwise.
\<close>

definition r2_score :: "column \<Rightarrow> column \<Rightarrow> py_error + npfloat" where
  "r2_score y_true y_pred =
     (if check_reg_targets y_true y_pred then
        (let ys = map real_of y_true; ps = map real_of y_pred;
             numerator = sum_list (map2 (\<lambda>a b. (a - b)\<^sup>2) ys ps);
             average = sum_list ys / real (length ys);
             denominator = sum_list (map (\<lambda>a. (a - average)\<^sup>2) ys)
         in Inr (Fin (if denominator \<noteq> 0 then 1 - numerator / denominator
                      else if numerator \<noteq> 0 then 0 else 1)))
      else Inl ValueError)"

text \<open>
  \<open>scipy.stats.norm.logpdf(x, loc, scale)\<close> at finite \<open>x\<close> and \<open>loc\<close>: the log
  of the normal density for a positive finite scale, minus infinity for an infinite
  scale, nan for any other scale. On columns it broadcasts a column of one entry.
\<close>

definition norm_logpdf :: "npfloat \<Rightarrow> npfloat \<Rightarrow> npfloat \<Rightarrow> npfloat" where
  "norm_logpdf x loc scale =
     (case scale of
        Fin s \<Rightarrow>
          if 0 < s then Fin (- ((real_of x - real_of loc) / s)\<^sup>2 / 2 - ln (sqrt (2 * pi)) - ln s)
          else NaN
      | PInf \<Rightarrow> NInf
      | _ \<Rightarrow> NaN)"

definition norm_logpdf_columns :: "column \<Rightarrow> column \<Rightarrow> column \<Rightarrow> py_error + column" where
  "norm_logpdf_columns x loc scale =
     (if length scale = length x then
        Inr (map (\<lambda>(a, b, s). norm_logpdf a b s) (zip x (zip loc scale)))
      else if length scale = 1 then
        Inr (map (\<lambda>(a, b). norm_logpdf a b (hd scale)) (zip x loc))
      else if length x = 1 then
        Inr (map (\<lambda>s. norm_logpdf (hd x) (hd loc) s) scale)
      else Inl ValueError)"

text \<open>
  The dictionary with the keys r2, rmse and mnll that \<open>calculate_metrics\<close> returns.
  The function takes three columns and returns a value: it has no state to change.
\<close>

record metrics =
  r2 :: npfloat
  rmse :: npfloat
  mnll :: npfloat

definition calculate_metrics :: "column \<Rightarrow> column \<Rightarrow> column \<Rightarrow> py_error + metrics" where
  "calculate_metrics y_test' y_mean_prediction y_var_prediction =
     (case r2_score y_test' y_mean_prediction of
        Inl e \<Rightarrow> Inl e
      | Inr r2_value \<Rightarrow>
          (case mean_squared_error y_test' y_mean_prediction of
             Inl e \<Rightarrow> Inl e
           | Inr mse \<Rightarrow>
               (case norm_logpdf_columns y_test' y_mean_prediction (map fsqrt y_var_prediction) of
                  Inl e \<Rightarrow> Inl e
                | Inr logpdf \<Rightarrow>
                    Inr \<lparr>r2 = r2_value, rmse = fsqrt mse,
                         mnll = fdiv (fneg (np_sum logpdf)) (Fin (real (length y_test')))\<rparr>)))"

text \<open>
  The quantities the specification names: the density of the normal distribution with
  mean \<open>mu\<close> and standard deviation \<open>sigma\<close>, and the arithmetic mean of a list.
\<close>

definition gaussian_density :: "real \<Rightarrow> real \<Rightarrow> real \<Rightarrow> real" where
  "gaussian_density mu sigma x = exp (- (x - mu)\<^sup>2 / (2 * sigma\<^sup>2)) / (sigma * sqrt (2 * pi))"

definition arithmetic_mean :: "real list \<Rightarrow> real" where
  "arithmetic_mean xs = sum_list xs / real (length xs)"

text \<open>
  The standard formulas for targets \<open>ys\<close>, predicted means \<open>ms\<close> and predicted
  variances \<open>vs\<close>: the residual and the total sum of squares, and the sum of the logs
  of the normal densities of the targets. A record of metrics is the standard one for
  three columns when the targets and the means are finite, of one length n > 0, its
  rmse is the root of the residual sum over n, its r2 is one minus the residual over the
  total sum when the latter is not zero, and its mnll is minus the log-likelihood over n
  when there is one positive finite variance per target.
\<close>

definition residual_sum_of_squares :: "real list \<Rightarrow> real list \<Rightarrow> real" where
  "residual_sum_of_squares ys ms = sum_list (map2 (\<lambda>y m. (y - m)\<^sup>2) ys ms)"

definition total_sum_of_squares :: "real list \<Rightarrow> real" where
  "total_sum_of_squares ys = sum_list (map (\<lambda>y. (y - arithmetic_mean ys)\<^sup>2) ys)"

definition log_likelihood :: "real list \<Rightarrow> real list \<Rightarrow> real list \<Rightarrow> real" where
  "log_likelihood ys ms vs =
     sum_list (map (\<lambda>i. ln (gaussian_density (ms ! i) (sqrt (vs ! i)) (ys ! i))) [0..<length ys])"

definition positive_variances :: "column \<Rightarrow> bool" where
  "positive_variances y_var = list_all (\<lambda>v. is_finite v \<and> 0 < real_of v) y_var"

definition standard_metrics :: "column \<Rightarrow> column \<Rightarrow> column \<Rightarrow> metrics \<Rightarrow> bool" where
  "standard_metrics yt y_mean y_var m =
     (let ys = map real_of yt; ms = map real_of y_mean; vs = map real_of y_var
      in all_finite yt \<and> all_finite y_mean \<and> length y_mean = length yt \<and> yt \<noteq> [] \<and>
         rmse m = Fin (sqrt (residual_sum_of_squares ys ms / real (length ys))) \<and>
         (total_sum_of_squares ys \<noteq> 0 \<longrightarrow>
            r2 m = Fin (1 - residual_sum_of_squares ys ms / total_sum_of_squares ys)) \<and>
         (length y_var = length yt \<and> positive_variances y_var \<longrightarrow>
            mnll m = Fin (- log_likelihood ys ms vs / real (length ys))))"

section \<open>print_metrics\<close>

text \<open>
  A Python dictionary keeps its keys in insertion order: it is a list of pairs with
  distinct keys. Assigning to a key that is present replaces its value in place.
\<close>

type_synonym ('k, 'v) dict = "('k \<times> 'v) list"

definition dict_set :: "('k, 'v) dict \<Rightarrow> 'k \<Rightarrow> 'v \<Rightarrow> ('k, 'v) dict" where
  "dict_set d k v =
     (if k \<in> set (map fst d) then map (\<lambda>(k', v'). if k' = k then (k', v) else (k', v')) d
      else d @ [(k, v)])"

definition dict_get :: "('k, 'v) dict \<Rightarrow> 'k \<Rightarrow> py_error + 'v" where
  "dict_get d k = (case map_of d k of None \<Rightarrow> Inl KeyError | Some v \<Rightarrow> Inr v)"

type_synonym model_metrics = "(string, metrics) dict"

type_synonym run_metrics = "(string, model_metrics) dict"

text \<open>
  \<open>metric[metric_name]\<close> on the dictionary \<open>calculate_metrics\<close> returns.
\<close>

definition metric_get :: "metrics \<Rightarrow> string \<Rightarrow> py_error + npfloat" where
  "metric_get m key =
     (if key = ''r2'' then Inr (r2 m)
      else if key = ''rmse'' then Inr (rmse m)
      else if key = ''mnll'' then Inr (mnll m)
      else Inl KeyError)"

text \<open>
  \<open>[metric[name][metric_name] for metric in metrics.values()]\<close>; a run without the
  model raises KeyError.
\<close>

fun metric_values :: "model_metrics list \<Rightarrow> string \<Rightarrow> string \<Rightarrow> py_error + npfloat list" where
  "metric_values [] nm metric_name = Inr []"
| "metric_values (metric # rest) nm metric_name =
     (case dict_get metric nm of
        Inl e \<Rightarrow> Inl e
      | Inr m \<Rightarrow>
          (case metric_get m metric_name of
             Inl e \<Rightarrow> Inl e
           | Inr v \<Rightarrow>
               (case metric_values rest nm metric_name of
                  Inl e \<Rightarrow> Inl e
                | Inr vs \<Rightarrow> Inr (v # vs))))"

text \<open>
  The inner loop over \<open>metric_names\<close> (the list \<open>mean\<close>) and the outer loop over
  \<open>model_names\<close> (the rows added to the table).
\<close>

fun mean_row :: "model_metrics list \<Rightarrow> string \<Rightarrow> string list \<Rightarrow> py_error + npfloat list" where
  "mean_row runs nm [] = Inr []"
| "mean_row runs nm (metric_name # rest) =
     (case metric_values runs nm metric_name of
        Inl e \<Rightarrow> Inl e
      | Inr vs \<Rightarrow>
          (case mean_row runs nm rest of
             Inl e \<Rightarrow> Inl e
           | Inr means \<Rightarrow> Inr (np_mean vs # means)))"

fun table_rows ::
  "model_metrics list \<Rightarrow> string list \<Rightarrow> string list \<Rightarrow> py_error + (string \<times> npfloat list) list"
where
  "table_rows runs [] metric_names = Inr []"
| "table_rows runs (nm # model_names) metric_names =
     (case mean_row runs nm metric_names of
        Inl e \<Rightarrow> Inl e
      | Inr means \<Rightarrow>
          (case table_rows runs model_names metric_names of
             Inl e \<Rightarrow> Inl e
           | Inr rws \<Rightarrow> Inr ((nm, means) # rws)))"

text \<open>
  The table \<open>print_metrics\<close> builds; \<open>list(metrics.values())[0]\<close> raises
  IndexError on an empty dictionary. \<open>print_metrics\<close> prints it.
\<close>

definition metrics_table :: "run_metrics \<Rightarrow> py_error + printed" where
  "metrics_table metrics =
     (case map snd metrics of
        [] \<Rightarrow> Inl IndexError
      | first # _ \<Rightarrow>
          (let model_names = map fst first;
               metric_names = [''r2'', ''mnll'', ''rmse'']
           in case table_rows (map snd metrics) model_names metric_names of
                Inl e \<Rightarrow> Inl e
              | Inr rws \<Rightarrow> Inr (PrintTable (''model'' # metric_names) rws)))"

definition print_metrics :: "run_metrics \<Rightarrow> 'r world \<Rightarrow> (py_error + unit) \<times> 'r world" where
  "print_metrics metrics w =
     (case metrics_table metrics of
        Inl e \<Rightarrow> (Inl e, w)
      | Inr table \<Rightarrow> (Inr (), w\<lparr>stdout := stdout w @ [table]\<rparr>))"

text \<open>
  The table of running averages over a list of runs: one row for each model of the first
  run, holding in the columns r2, mnll and rmse the sum of the model's values over the
  runs divided by the number of runs.
\<close>

definition average_over_runs :: "model_metrics list \<Rightarrow> string \<Rightarrow> (metrics \<Rightarrow> npfloat) \<Rightarrow> npfloat" where
  "average_over_runs runs nm metric =
     fdiv (np_sum (map (\<lambda>run. metric (the (map_of run nm))) runs)) (Fin (real (length runs)))"

definition running_averages :: "model_metrics list \<Rightarrow> printed" where
  "running_averages runs =
     PrintTable [''model'', ''r2'', ''mnll'', ''rmse'']
       (map (\<lambda>nm. (nm, [average_over_runs runs nm r2, average_over_runs runs nm mnll,
                         average_over_runs runs nm rmse]))
          (map fst (hd runs)))"

section \<open>Models and the benchmark driver\<close>

text \<open>
  The four model classes are library code: the notebook only constructs them and calls
  \<open>optimize()\<close> and \<open>predict(x)\<close>. A model object has a name and a state of its own;
  every call may read and advance the random generator and may raise.
  \<open>optimize\<close> returns the fitted object.
\<close>

record 'm model =
  model_name :: string
  model_state :: 'm

record ('m, 'r) model_library =
  HighFidelityGp :: "ndarray list \<Rightarrow> column list \<Rightarrow> 'r \<Rightarrow> (py_error + 'm model) \<times> 'r"
  LinearAutoRegressiveModel :: "ndarray list \<Rightarrow> column list \<Rightarrow> 'r \<Rightarrow> (py_error + 'm model) \<times> 'r"
  NonLinearAutoRegressiveModel :: "ndarray list \<Rightarrow> column list \<Rightarrow> 'r \<Rightarrow> (py_error + 'm model) \<times> 'r"
  MultiFidelityDeepGP :: "ndarray list \<Rightarrow> column list \<Rightarrow> nat \<Rightarrow> 'r \<Rightarrow> (py_error + 'm model) \<times> 'r"
  optimize :: "'m model \<Rightarrow> 'r \<Rightarrow> (py_error + 'm model) \<times> 'r"
  predict :: "'m model \<Rightarrow> ndarray \<Rightarrow> 'r \<Rightarrow> (py_error + column \<times> column) \<times> 'r"

text \<open>The three \<open>print\<close> calls at the end of the loop body of \<open>benchmark_models\<close>.\<close>

definition model_lines :: "string \<Rightarrow> npfloat \<Rightarrow> printed list" where
  "model_lines nm v =
     [PrintLine ''+ ######################## +'', PrintR2 nm v,
      PrintLine ''+ ######################## + '']"

text \<open>
  The loop of \<open>benchmark_models\<close> with the dictionary \<open>metrics\<close> built so far. An
  exception leaves the loop at once; the result then carries the dictionary as it was at
  that moment.
\<close>

fun benchmark_loop ::
  "('m, 'r) model_library \<Rightarrow> 'm model list \<Rightarrow> ndarray \<Rightarrow> column \<Rightarrow> model_metrics \<Rightarrow> 'r world
     \<Rightarrow> (py_error \<times> model_metrics + model_metrics) \<times> 'r world"
where
  "benchmark_loop lib [] xt yt metrics w = (Inr metrics, w)"
| "benchmark_loop lib (model # models) xt yt metrics w =
     (case optimize lib model (rng w) of
        (Inl e, g1) \<Rightarrow> (Inl (e, metrics), w\<lparr>rng := g1\<rparr>)
      | (Inr fitted, g1) \<Rightarrow>
          (case predict lib fitted xt g1 of
             (Inl e, g2) \<Rightarrow> (Inl (e, metrics), w\<lparr>rng := g2\<rparr>)
           | (Inr (y_mean, y_var), g2) \<Rightarrow>
               (case calculate_metrics yt y_mean y_var of
                  Inl e \<Rightarrow> (Inl (e, metrics), w\<lparr>rng := g2\<rparr>)
                | Inr m \<Rightarrow>
                    benchmark_loop lib models xt yt (dict_set metrics (model_name fitted) m)
                      (w\<lparr>rng := g2,
                         stdout := stdout w @
                           model_lines (model_name fitted) (r2 m)\<rparr>))))"

definition benchmark_models ::
  "('m, 'r) model_library \<Rightarrow> 'm model list \<Rightarrow> ndarray \<Rightarrow> column \<Rightarrow> 'r world
     \<Rightarrow> (py_error \<times> model_metrics + model_metrics) \<times> 'r world"
where
  "benchmark_models lib models xt yt w = benchmark_loop lib models xt yt [] w"

definition test_function ::
  "('m, 'r) model_library \<Rightarrow> ('s, 'r) sampler \<Rightarrow> 's Function \<Rightarrow> nat \<Rightarrow> 'r world
     \<Rightarrow> (py_error + model_metrics) \<times> 'r world"
where
  "test_function lib smp fcn_tuple seed w =
     (case generate_data smp fcn_tuple 1000 (w\<lparr>rng := random_seed smp seed\<rparr>) of
        (Inl e, w1) \<Rightarrow> (Inl e, w1)
      | (Inr d, w1) \<Rightarrow>
          (case MultiFidelityDeepGP lib (X_train d) (Y_train d) 5000 (rng w1) of
             (Inl e, g1) \<Rightarrow> (Inl e, w1\<lparr>rng := g1\<rparr>)
           | (Inr mf_dgp, g1) \<Rightarrow>
               (let mf_dgp_fix_lf_mean = mf_dgp\<lparr>model_name := ''mf_dgp_fix_lf_mean''\<rparr>
                in case HighFidelityGp lib (X_train d) (Y_train d) g1 of
                     (Inl e, g2) \<Rightarrow> (Inl e, w1\<lparr>rng := g2\<rparr>)
                   | (Inr hf, g2) \<Rightarrow>
                       (case LinearAutoRegressiveModel lib (X_train d) (Y_train d) g2 of
                          (Inl e, g3) \<Rightarrow> (Inl e, w1\<lparr>rng := g3\<rparr>)
                        | (Inr lar, g3) \<Rightarrow>
                            (case NonLinearAutoRegressiveModel lib (X_train d) (Y_train d) g3 of
                               (Inl e, g4) \<Rightarrow> (Inl e, w1\<lparr>rng := g4\<rparr>)
                             | (Inr nlar, g4) \<Rightarrow>
                                 (case benchmark_models lib [hf, lar, nlar, mf_dgp_fix_lf_mean]
                                         (x_test d) (y_test d) (w1\<lparr>rng := g4\<rparr>) of
                                    (Inl (e, partial), w2) \<Rightarrow> (Inl e, w2)
                                  | (Inr metrics, w2) \<Rightarrow> (Inr metrics, w2)))))))"

text \<open>
  \<open>str(seed)\<close> and \<open>str(fcn_tuple.num_data)\<close>: decimal digits, and a list as
  \<open>[a, b]\<close>.
\<close>

definition digit_char :: "nat \<Rightarrow> char" where
  "digit_char k = ''0123456789'' ! k"

function str_nat :: "nat \<Rightarrow> string" where
  "str_nat n = (if n < 10 then [digit_char n] else str_nat (n div 10) @ [digit_char (n mod 10)])"
  by pat_completeness auto

termination
  by (relation "measure id") auto

declare str_nat.simps [simp del]

fun join_comma :: "string list \<Rightarrow> string" where
  "join_comma [] = []"
| "join_comma [s] = s"
| "join_comma (s # t # rest) = s @ '', '' @ join_comma (t # rest)"

definition str_list :: "nat list \<Rightarrow> string" where
  "str_list ns = ''['' @ join_comma (map str_nat ns) @ '']''"

definition seeds :: "nat list" where
  "seeds = [123, 184, 202, 289, 732]"

text \<open>
  The loop of \<open>do_benchmark\<close> over \<open>enumerate(seeds)\<close>, from index \<open>i\<close>, with the
  dictionary \<open>metrics\<close> built so far.
\<close>

fun run_seeds ::
  "('m, 'r) model_library \<Rightarrow> ('s, 'r) sampler \<Rightarrow> 's Function \<Rightarrow> nat \<Rightarrow> nat list \<Rightarrow> run_metrics
     \<Rightarrow> 'r world \<Rightarrow> (py_error \<times> run_metrics + run_metrics) \<times> 'r world"
where
  "run_seeds lib smp fcn_tuple i [] metrics w = (Inr metrics, w)"
| "run_seeds lib smp fcn_tuple i (seed # rest) metrics w =
     (let run_name = str_nat seed @ str_list (num_data fcn_tuple)
      in case test_function lib smp fcn_tuple seed w of
           (Inl e, w1) \<Rightarrow> (Inl (e, metrics), w1)
         | (Inr result, w1) \<Rightarrow>
             (let metrics = dict_set metrics run_name result;
                  w2 = w1\<lparr>stdout := stdout w1 @ [PrintAfterRuns (i + 1) (name fcn_tuple)]\<rparr>
              in case print_metrics metrics w2 of
                   (Inl e, w3) \<Rightarrow> (Inl (e, metrics), w3)
                 | (Inr u, w3) \<Rightarrow> run_seeds lib smp fcn_tuple (i + 1) rest metrics w3))"

definition do_benchmark ::
  "('m, 'r) model_library \<Rightarrow> ('s, 'r) sampler \<Rightarrow> 's Function \<Rightarrow> 'r world
     \<Rightarrow> (py_error \<times> run_metrics + run_metrics) \<times> 'r world"
where
  "do_benchmark lib smp fcn_tuple w = run_seeds lib smp fcn_tuple 0 seeds [] w"

text \<open>The key under which \<open>do_benchmark\<close> stores the run of a seed.\<close>

definition run_name :: "'s Function \<Rightarrow> nat \<Rightarrow> string" where
  "run_name ft seed = str_nat seed @ str_list (num_data ft)"

section \<open>Example inputs\<close>

text \<open>
  A one-dimensional sampler whose generator state is a counter, and a descriptor with
  two fidelity levels; the variants change one field each.
\<close>

definition first_coordinate :: "ndarray \<Rightarrow> column" where
  "first_coordinate x = map (\<lambda>row. row ! 0) (rows x)"

definition sampler_ex :: "(unit, nat) sampler" where
  "sampler_ex =
     \<lparr>space_dim = (\<lambda>space. 1),
      latin_points = (\<lambda>space n r. (\<lambda>i j. Fin (real (r + 4 * i)), r + n)),
      standard_normal = (\<lambda>k r. (\<lambda>i. Fin (real r), r + 1)),
      random_seed = (\<lambda>seed. seed)\<rparr>"

definition function_ex :: "unit Function" where
  "function_ex =
     \<lparr>name = ''ex'', y_scale = Fin 2, noise_level = [Fin (1 / 2), Fin 0], do_x_scaling = True,
      num_data = [2, 1],
      fcn = ([\<lambda>x. map (fmul (Fin 3)) (first_coordinate x), first_coordinate], ())\<rparr>"

definition world_ex :: "nat world" where
  "world_ex = \<lparr>rng = 0, stdout = []\<rparr>"

definition dataset_ex :: dataset where
  "dataset_ex =
     \<lparr>x_test = \<lparr>ncols = 2, rows = [[Fin (5 / 2), Fin 1]]\<rparr>, y_test = [Fin (5 / 2)],
      X_train = [\<lparr>ncols = 1, rows = [[Fin 0], [Fin 2]]\<rparr>, \<lparr>ncols = 1, rows = [[Fin 1]]\<rparr>],
      Y_train = [[Fin 0, Fin (24 / 7)], [Fin 1]]\<rparr>"

definition unscaled_ex :: "unit Function" where
  "unscaled_ex = function_ex\<lparr>do_x_scaling := False\<rparr>"

definition unscaled_dataset_ex :: dataset where
  "unscaled_dataset_ex =
     \<lparr>x_test = \<lparr>ncols = 2, rows = [[Fin 5, Fin 1]]\<rparr>, y_test = [Fin (5 / 2)],
      X_train = [\<lparr>ncols = 1, rows = [[Fin 0], [Fin 4]]\<rparr>, \<lparr>ncols = 1, rows = [[Fin 2]]\<rparr>],
      Y_train = [[Fin 0, Fin (24 / 7)], [Fin 1]]\<rparr>"

definition degenerate_ex :: "unit Function" where
  "degenerate_ex = function_ex\<lparr>num_data := [1, 1]\<rparr>"

definition single_ex :: "unit Function" where
  "single_ex = function_ex\<lparr>num_data := [2]\<rparr>"

text \<open>
  Model libraries: one whose models predict mean 0 and variance 1 everywhere; one whose
  models predict the test targets of the unscaled example exactly, with variance 1 for
  the high-fidelity GP and for a test set that starts below 200, and variance 4
  otherwise, together with the metrics this gives in the first two and in the later
  runs; and one in which fitting the linear auto-regressive model fails.
\<close>

definition library_ex :: "(unit, nat) model_library" where
  "library_ex =
     \<lparr>HighFidelityGp = (\<lambda>X Y g. (Inr \<lparr>model_name = ''hf_gp'', model_state = ()\<rparr>, g)),
      LinearAutoRegressiveModel = (\<lambda>X Y g. (Inr \<lparr>model_name = ''ar1'', model_state = ()\<rparr>, g)),
      NonLinearAutoRegressiveModel =
        (\<lambda>X Y g. (Inr \<lparr>model_name = ''nargp'', model_state = ()\<rparr>, g)),
      MultiFidelityDeepGP =
        (\<lambda>X Y n_iter g. (Inr \<lparr>model_name = ''mf_dgp'', model_state = ()\<rparr>, g)),
      optimize = (\<lambda>m g. (Inr m, g + 1)),
      predict = (\<lambda>m xt g. (Inr (replicate (length (rows xt)) (Fin 0),
                                   replicate (length (rows xt)) (Fin 1)), g))\<rparr>"

definition exact_library_ex :: "(unit, nat) model_library" where
  "exact_library_ex =
     library_ex\<lparr>predict :=
       (\<lambda>m xt g. (Inr (map (\<lambda>row. fdiv (row ! 0) (Fin 2)) (rows xt),
                          replicate (length (rows xt))
                            (if model_name m = ''hf_gp'' \<or> real_of (rows xt ! 0 ! 0) < 200
                             then Fin 1 else Fin 4)), g))\<rparr>"

definition first_scores_ex :: model_metrics where
  "first_scores_ex =
     [(''hf_gp'', \<lparr>r2 = Fin 1, rmse = Fin 0, mnll = Fin (ln (sqrt (2 * pi)))\<rparr>),
      (''ar1'', \<lparr>r2 = Fin 1, rmse = Fin 0, mnll = Fin (ln (sqrt (2 * pi)))\<rparr>),
      (''nargp'', \<lparr>r2 = Fin 1, rmse = Fin 0, mnll = Fin (ln (sqrt (2 * pi)))\<rparr>),
      (''mf_dgp_fix_lf_mean'', \<lparr>r2 = Fin 1, rmse = Fin 0, mnll = Fin (ln (sqrt (2 * pi)))\<rparr>)]"

definition later_scores_ex :: model_metrics where
  "later_scores_ex =
     [(''hf_gp'', \<lparr>r2 = Fin 1, rmse = Fin 0, mnll = Fin (ln (sqrt (2 * pi)))\<rparr>),
      (''ar1'', \<lparr>r2 = Fin 1, rmse = Fin 0, mnll = Fin (ln (sqrt (2 * pi)) + ln 2)\<rparr>),
      (''nargp'', \<lparr>r2 = Fin 1, rmse = Fin 0, mnll = Fin (ln (sqrt (2 * pi)) + ln 2)\<rparr>),
      (''mf_dgp_fix_lf_mean'',
       \<lparr>r2 = Fin 1, rmse = Fin 0, mnll = Fin (ln (sqrt (2 * pi)) + ln 2)\<rparr>)]"

definition failing_library_ex :: "(unit, nat) model_library" where
  "failing_library_ex =
     library_ex\<lparr>optimize :=
       (\<lambda>m g. if model_name m = ''ar1'' then (Inl (LibraryError ''optimization failed''), g)
               else (Inr m, g + 1))\<rparr>"

definition metrics_ex :: run_metrics where
  "metrics_ex =
     [(''123[2, 1]'', [(''hf_gp'', \<lparr>r2 = Fin 1, rmse = Fin 2, mnll = Fin 3\<rparr>),
                       (''ar1'', \<lparr>r2 = Fin 0, rmse = Fin 4, mnll = Fin 5\<rparr>)]),
      (''184[2, 1]'', [(''hf_gp'', \<lparr>r2 = Fin 0, rmse = Fin 4, mnll = Fin 6\<rparr>),
                       (''ar1'', \<lparr>r2 = Fin 1, rmse = Fin 2, mnll = Fin 1\<rparr>)])]"

definition names_ex :: "string list" where
  "names_ex = [''hf_gp'', ''ar1'', ''nargp'', ''mf_dgp_fix_lf_mean'']"

definition models_ex :: "unit model list" where
  "models_ex = [\<lparr>model_name = ''hf_gp'', model_state = ()\<rparr>,
                \<lparr>model_name = ''ar1'', model_state = ()\<rparr>,
                \<lparr>model_name = ''nargp'', model_state = ()\<rparr>,
                \<lparr>model_name = ''mf_dgp_fix_lf_mean'', model_state = ()\<rparr>]"

section \<open>Lemmas on the loops of generate_data\<close>

lemma length_sample_all: "length (fst (sample_all smp space ns r)) = length ns"
  by (induction ns arbitrary: r) (simp_all add: case_prod_unfold Let_def)

lemma map_upt_Cons:
  "map g [0..<length (x # xs)] = g 0 # map (\<lambda>j. g (Suc j)) [0..<length xs]"
  by (simp add: upt_conv_Cons map_Suc_upt [symmetric] del: upt_Suc)

lemma eval_fidelities_Inr:
  "eval_fidelities fs i X s = Inr Y \<Longrightarrow>
     (X \<noteq> [] \<longrightarrow> i + length X \<le> length fs) \<and>
     Y = map (\<lambda>j. (fs ! (i + j)) (mul_rows (X ! j) s)) [0..<length X]"
proof (induction X arbitrary: i Y)
  case Nil
  then show ?case by simp
next
  case (Cons x X)
  from Cons.prems obtain Y' where
    lt: "i < length fs" and rec: "eval_fidelities fs (i + 1) X s = Inr Y'"
    and Y: "Y = (fs ! i) (mul_rows x s) # Y'"
    by (auto split: if_splits sum.splits)
  from Cons.IH [OF rec] have
    le: "X \<noteq> [] \<longrightarrow> i + 1 + length X \<le> length fs"
    and Y': "Y' = map (\<lambda>j. (fs ! (i + 1 + j)) (mul_rows (X ! j) s)) [0..<length X]"
    by auto
  from le lt have "i + length (x # X) \<le> length fs" by (cases X) auto
  with Y Y' show ?case unfolding map_upt_Cons by simp
qed

lemma eval_fidelities_ok:
  "i + length X \<le> length fs \<Longrightarrow>
     eval_fidelities fs i X s = Inr (map (\<lambda>j. (fs ! (i + j)) (mul_rows (X ! j) s)) [0..<length X])"
proof (induction X arbitrary: i)
  case Nil
  then show ?case by simp
next
  case (Cons x X)
  have "eval_fidelities fs (i + 1) X s = Inr (map (\<lambda>j. (fs ! (i + 1 + j)) (mul_rows (X ! j) s)) [0..<length X])"
    using Cons.prems by (intro Cons.IH) simp
  then show ?case using Cons.prems unfolding map_upt_Cons by simp
qed

lemma eval_fidelities_Inl:
  "eval_fidelities fs i X s = Inl e \<Longrightarrow> e = IndexError \<and> length fs < i + length X"
  by (induction X arbitrary: i) (fastforce split: if_splits sum.splits)+

lemma scale_and_noise_eq:
  "scale_and_noise smp ys Y nls r =
     (noised ys Y nls (fst (noise_draws smp (map length (take (length nls) Y)) r)),
      snd (noise_draws smp (map length (take (length nls) Y)) r))"
proof (induction smp ys Y nls r rule: scale_and_noise.induct)
  case (1 smp ys nls r)
  then show ?case by (simp add: noised_def)
next
  case (2 smp ys y Y r)
  have "noised ys Y' [] [] = Y'" for Y'
    unfolding noised_def by (simp add: map_nth)
  then show ?case by simp
next
  case (3 smp ys y Y std_noise nls r)
  obtain z r' where z: "randn smp (length y) r = (z, r')" by (cases "randn smp (length y) r")
  have step: "noised ys (y # Y) (std_noise # nls) (z # zs)
     = map2 fdiv y (noisy_divisor ys std_noise z) # noised ys Y nls zs" for zs
    unfolding noised_def map_upt_Cons by simp
  from 3 [OF z [symmetric] refl] z step show ?case
    by (simp add: case_prod_unfold Let_def)
qed

lemma build_data_unfold:
  "build_data smp ft n r =
     (let fs = fst (fcn ft); space = snd (fcn ft);
          X = training_samples smp ft r; r1 = rng_after_training smp ft r
      in if X = [] then (Inl IndexError, r1)
         else
           (let s = scaling_vector smp ft r; Xd = map (\<lambda>x. div_rows x s) X
            in case eval_fidelities fs 0 Xd s of
                 Inl e \<Rightarrow> (Inl e, r1)
               | Inr Y0 \<Rightarrow>
                   (let Yr = scale_and_noise smp (y_scale ft) Y0 (noise_level ft) r1;
                        xtr = get_samples smp space n (snd Yr);
                        xt = div_rows (fst xtr) s
                    in if fs = [] then (Inl IndexError, snd xtr)
                       else (Inr \<lparr>x_test = concatenate_axis1 xt
                                     (map (fmul (Fin (of_int (int (length (num_data ft)) - 1))))
                                        (np_ones (length (rows xt)))),
                                   y_test = map (\<lambda>v. fdiv v (y_scale ft))
                                     ((last fs) (mul_rows xt s)),
                                   X_train = Xd, Y_train = fst Yr\<rparr>,
                             snd xtr))))"
proof -
  obtain fs space where fcn: "fcn ft = (fs, space)" by (cases "fcn ft")
  obtain X r1 where sa: "sample_all smp space (num_data ft) r = (X, r1)"
    by (cases "sample_all smp space (num_data ft) r")
  have ts: "training_samples smp ft r = X" and r1: "rng_after_training smp ft r = r1"
    by (simp_all add: training_samples_def rng_after_training_def fcn sa)
  show ?thesis
  proof (cases X)
    case Nil
    then show ?thesis by (simp add: build_data_def fcn sa ts r1)
  next
    case (Cons X0 Xs)
    have sv: "scaling_vector smp ft r =
                (if do_x_scaling ft then np_std_axis0 X0 else np_ones (ncols X0))"
      by (simp add: scaling_vector_def ts Cons)
    show ?thesis
      unfolding build_data_def ts r1 sv fcn
      by (cases fs)
         (simp_all add: sa Cons case_prod_unfold Let_def split: sum.split
            del: eval_fidelities.simps)
  qed
qed

lemma length_training_samples: "length (training_samples smp ft r) = length (num_data ft)"
  by (simp add: training_samples_def length_sample_all)

lemma length_function_values: "length (function_values smp ft r) = length (num_data ft)"
  by (simp add: function_values_def)

lemma eval_fidelities_scaled:
  assumes "eval_fidelities (fst (fcn ft)) 0
             (map (\<lambda>x. div_rows x (scaling_vector smp ft r)) (training_samples smp ft r))
             (scaling_vector smp ft r) = Inr Y0"
  shows "Y0 = function_values smp ft r"
proof -
  have "Y0 = map (\<lambda>j. (fst (fcn ft) ! (0 + j))
                 (mul_rows (map (\<lambda>x. div_rows x (scaling_vector smp ft r))
                              (training_samples smp ft r) ! j) (scaling_vector smp ft r)))
               [0..<length (training_samples smp ft r)]"
    using eval_fidelities_Inr [OF assms] by simp
  also have "\<dots> = function_values smp ft r"
    unfolding function_values_def length_training_samples
    by (rule map_cong) (simp_all add: length_training_samples)
  finally show ?thesis .
qed

lemma build_data_Inr:
  assumes "build_data smp ft n r = (Inr d, r')"
  shows "num_data ft \<noteq> []"
    and "length (num_data ft) \<le> length (fst (fcn ft))"
    and "X_train d = map (\<lambda>x. div_rows x (scaling_vector smp ft r)) (training_samples smp ft r)"
    and "Y_train d = noised (y_scale ft) (function_values smp ft r) (noise_level ft)
                       (fst (noise_calls smp ft r))"
    and "x_test d = concatenate_axis1 (div_rows (test_samples smp ft n r) (scaling_vector smp ft r))
                      (map (fmul (Fin (of_int (int (length (num_data ft)) - 1))))
                         (np_ones (length (rows (test_samples smp ft n r)))))"
    and "y_test d = map (\<lambda>v. fdiv v (y_scale ft))
                      ((last (fst (fcn ft)))
                         (mul_rows (div_rows (test_samples smp ft n r) (scaling_vector smp ft r))
                            (scaling_vector smp ft r)))"
    and "r' = snd (get_samples smp (snd (fcn ft)) n (snd (noise_calls smp ft r)))"
proof -
  define s where "s = scaling_vector smp ft r"
  define Xd where "Xd = map (\<lambda>x. div_rows x s) (training_samples smp ft r)"
  from assms have ne: "training_samples smp ft r \<noteq> []"
    by (auto simp: build_data_unfold Let_def split: if_splits)
  with assms obtain Y0 where ef: "eval_fidelities (fst (fcn ft)) 0 Xd s = Inr Y0"
    by (cases "eval_fidelities (fst (fcn ft)) 0 Xd s")
       (auto simp: build_data_unfold Let_def s_def Xd_def)
  have Y0: "Y0 = function_values smp ft r"
    using ef unfolding Xd_def s_def by (rule eval_fidelities_scaled)
  from eval_fidelities_Inr [OF ef] ne
  show le: "length (num_data ft) \<le> length (fst (fcn ft))"
    by (simp add: Xd_def length_training_samples)
  from ne show nd: "num_data ft \<noteq> []"
    using length_training_samples [of smp ft r] by auto
  from le nd have fs: "fst (fcn ft) \<noteq> []" by auto
  have sn: "scale_and_noise smp (y_scale ft) Y0 (noise_level ft) (rng_after_training smp ft r)
          = (noised (y_scale ft) Y0 (noise_level ft) (fst (noise_calls smp ft r)),
             snd (noise_calls smp ft r))"
    by (simp add: scale_and_noise_eq noise_calls_def Y0)
  from assms ne ef fs sn
  have d: "d = \<lparr>x_test = concatenate_axis1 (div_rows (test_samples smp ft n r) s)
                   (map (fmul (Fin (of_int (int (length (num_data ft)) - 1))))
                      (np_ones (length (rows (div_rows (test_samples smp ft n r) s))))),
               y_test = map (\<lambda>v. fdiv v (y_scale ft))
                   ((last (fst (fcn ft))) (mul_rows (div_rows (test_samples smp ft n r) s) s)),
               X_train = Xd,
               Y_train = noised (y_scale ft) Y0 (noise_level ft) (fst (noise_calls smp ft r))\<rparr>"
    and r': "r' = snd (get_samples smp (snd (fcn ft)) n (snd (noise_calls smp ft r)))"
    by (simp_all add: build_data_unfold Let_def s_def [symmetric] Xd_def [symmetric]
          test_samples_def)
  show "r' = snd (get_samples smp (snd (fcn ft)) n (snd (noise_calls smp ft r)))" by (fact r')
  show "X_train d = map (\<lambda>x. div_rows x (scaling_vector smp ft r)) (training_samples smp ft r)"
    by (simp add: d Xd_def s_def)
  show "Y_train d = noised (y_scale ft) (function_values smp ft r) (noise_level ft)
                       (fst (noise_calls smp ft r))"
    by (simp add: d Y0)
  show "x_test d = concatenate_axis1 (div_rows (test_samples smp ft n r) (scaling_vector smp ft r))
                      (map (fmul (Fin (of_int (int (length (num_data ft)) - 1))))
                         (np_ones (length (rows (test_samples smp ft n r)))))"
    by (simp add: d s_def div_rows_def)
  show "y_test d = map (\<lambda>v. fdiv v (y_scale ft))
                      ((last (fst (fcn ft)))
                         (mul_rows (div_rows (test_samples smp ft n r) (scaling_vector smp ft r))
                            (scaling_vector smp ft r)))"
    by (simp add: d s_def)
qed

lemma build_data_returns:
  assumes "num_data ft \<noteq> []" and "length (num_data ft) \<le> length (fst (fcn ft))"
  shows "\<exists>d r'. build_data smp ft n r = (Inr d, r')"
proof -
  define s where "s = scaling_vector smp ft r"
  define Xd where "Xd = map (\<lambda>x. div_rows x s) (training_samples smp ft r)"
  from assms have ne: "training_samples smp ft r \<noteq> []"
    using length_training_samples [of smp ft r] by auto
  have "0 + length Xd \<le> length (fst (fcn ft))"
    using assms by (simp add: Xd_def length_training_samples)
  from eval_fidelities_ok [OF this] obtain Y0
    where ef: "eval_fidelities (fst (fcn ft)) 0 Xd s = Inr Y0"
    by blast
  from assms have fs: "fst (fcn ft) \<noteq> []" by auto
  show ?thesis
    using ne ef fs
    by (simp add: build_data_unfold Let_def s_def [symmetric] Xd_def [symmetric])
qed

lemma build_data_Inl:
  assumes "build_data smp ft n r = (Inl e, r')"
  shows "e = IndexError"
  using assms
  by (auto simp: build_data_unfold Let_def split: if_splits sum.splits
           dest: eval_fidelities_Inl)

lemma generate_data_Inr:
  assumes "fst (generate_data smp ft n w) = Inr d"
  shows "fst (build_data smp ft n (rng w)) = Inr d"
    and "2 \<le> length (num_data ft)"
    and "stdout (snd (generate_data smp ft n w)) =
           stdout w @ [PrintShape (length (rows (X_train d ! 1)), ncols (X_train d ! 1))]"
proof -
  obtain res r' where bd: "build_data smp ft n (rng w) = (res, r')"
    by (cases "build_data smp ft n (rng w)")
  from assms bd obtain x0 x1 xs where res: "res = Inr d" and X: "X_train d = x0 # x1 # xs"
    by (auto simp: generate_data_def split: sum.splits list.splits)
  from bd res show "fst (build_data smp ft n (rng w)) = Inr d" by simp
  from bd res have "X_train d = map (\<lambda>x. div_rows x (scaling_vector smp ft (rng w)))
                      (training_samples smp ft (rng w))"
    by (intro build_data_Inr(3)) simp
  then have "length (X_train d) = length (num_data ft)"
    by (simp add: length_training_samples)
  with X show "2 \<le> length (num_data ft)" by simp
  from bd res X show "stdout (snd (generate_data smp ft n w)) =
           stdout w @ [PrintShape (length (rows (X_train d ! 1)), ncols (X_train d ! 1))]"
    by (simp add: generate_data_def)
qed

lemma generate_data_build:
  assumes "fst (generate_data smp ft n w) = Inr d"
  shows "build_data smp ft n (rng w) = (Inr d, snd (build_data smp ft n (rng w)))"
  using generate_data_Inr(1) [OF assms] by (cases "build_data smp ft n (rng w)") simp

lemma generate_data_returns:
  assumes "2 \<le> length (num_data ft)" and "length (num_data ft) \<le> length (fst (fcn ft))"
  shows "\<exists>d. fst (generate_data smp ft n w) = Inr d"
proof -
  from assms have "num_data ft \<noteq> []" by auto
  then have "\<exists>d r'. build_data smp ft n (rng w) = (Inr d, r')"
    using assms(2) by (rule build_data_returns)
  then obtain d r' where bd: "build_data smp ft n (rng w) = (Inr d, r')" by blast
  have "length (X_train d) = length (num_data ft)"
    using build_data_Inr(3) [OF bd] by (simp add: length_training_samples)
  with assms(1) obtain x0 x1 xs where "X_train d = x0 # x1 # xs"
    by (cases "X_train d"; cases "tl (X_train d)") auto
  with bd show ?thesis by (simp add: generate_data_def)
qed

lemma noise_draws_lengths:
  "i < length ks \<Longrightarrow> length (fst (noise_draws smp ks r) ! i) = ks ! i"
proof (induction ks arbitrary: r i)
  case Nil
  then show ?case by simp
next
  case (Cons k ks)
  show ?case
  proof (cases i)
    case 0
    with Cons.prems show ?thesis
      by (simp add: case_prod_unfold Let_def randn_def)
  next
    case (Suc j)
    with Cons.prems have "j < length ks" by simp
    from Cons.IH [OF this] Suc show ?thesis
      by (simp add: case_prod_unfold Let_def)
  qed
qed

section \<open>Lemmas on arrays and their shapes\<close>

lemma fdiv_one [simp]: "fdiv x (Fin 1) = x"
  by (cases x) simp_all

lemma fmul_one [simp]: "fmul x (Fin 1) = x"
  by (cases x) (simp_all add: inf_of_sign_def)

lemma get_samples_shape:
  "ncols (fst (get_samples smp space n r)) = space_dim smp space"
  "length (rows (fst (get_samples smp space n r))) = n"
  "wf_array (fst (get_samples smp space n r))"
  by (simp_all add: get_samples_def case_prod_unfold Let_def wf_array_def list_all_iff)

lemma sample_all_shape:
  "x \<in> set (fst (sample_all smp space ns r)) \<Longrightarrow> ncols x = space_dim smp space \<and> wf_array x"
proof (induction ns arbitrary: r)
  case Nil
  then show ?case by simp
next
  case (Cons k ks)
  from Cons.prems consider "x = fst (get_samples smp space k r)"
    | "x \<in> set (fst (sample_all smp space ks (snd (get_samples smp space k r))))"
    by (auto simp: case_prod_unfold Let_def)
  then show ?case
  proof cases
    case 1
    then show ?thesis by (simp add: get_samples_shape)
  next
    case 2
    with Cons.IH show ?thesis by blast
  qed
qed

lemma training_samples_shape:
  "i < length (num_data ft) \<Longrightarrow>
     ncols (training_samples smp ft r ! i) = space_dim smp (snd (fcn ft)) \<and>
     wf_array (training_samples smp ft r ! i)"
  using sample_all_shape [of "training_samples smp ft r ! i" smp "snd (fcn ft)" "num_data ft" r]
  by (simp add: training_samples_def length_sample_all)

lemma test_samples_shape:
  "ncols (test_samples smp ft n r) = space_dim smp (snd (fcn ft)) \<and>
   wf_array (test_samples smp ft n r) \<and> length (rows (test_samples smp ft n r)) = n"
  by (simp add: get_samples_shape test_samples_def)

lemma map2_fdiv_ones: "length row \<le> m \<Longrightarrow> map2 fdiv row (np_ones m) = row"
proof (induction row arbitrary: m)
  case Nil
  then show ?case by simp
next
  case (Cons a row)
  then obtain m' where m: "m = Suc m'" by (cases m) auto
  with Cons.prems have "map2 fdiv row (np_ones m') = row" by (intro Cons.IH) simp
  with m show ?case by (simp add: np_ones_def)
qed

lemma div_rows_ones: "wf_array x \<Longrightarrow> ncols x \<le> m \<Longrightarrow> div_rows x (np_ones m) = x"
proof -
  assume wf: "wf_array x" and le: "ncols x \<le> m"
  have "map (\<lambda>row. map2 fdiv row (np_ones m)) (rows x) = rows x"
    using wf le by (intro map_idI map2_fdiv_ones) (simp add: wf_array_def list_all_iff)
  then show ?thesis by (simp add: div_rows_def)
qed

lemma map2_fmul_ones: "length row \<le> m \<Longrightarrow> map2 fmul row (np_ones m) = row"
proof (induction row arbitrary: m)
  case Nil
  then show ?case by simp
next
  case (Cons a row)
  then obtain m' where m: "m = Suc m'" by (cases m) auto
  with Cons.prems have "map2 fmul row (np_ones m') = row" by (intro Cons.IH) simp
  with m show ?case by (simp add: np_ones_def)
qed

lemma mul_rows_ones: "wf_array x \<Longrightarrow> ncols x \<le> m \<Longrightarrow> mul_rows x (np_ones m) = x"
proof -
  assume wf: "wf_array x" and le: "ncols x \<le> m"
  have "map (\<lambda>row. map2 fmul row (np_ones m)) (rows x) = rows x"
    using wf le by (intro map_idI map2_fmul_ones) (simp add: wf_array_def list_all_iff)
  then show ?thesis by (simp add: mul_rows_def)
qed

lemma scaling_vector_length:
  "num_data ft \<noteq> [] \<Longrightarrow> length (scaling_vector smp ft r) = space_dim smp (snd (fcn ft))"
  using training_samples_shape [of 0 ft smp r]
  by (simp add: scaling_vector_def np_std_axis0_def np_ones_def)

lemma butlast_snoc_rows:
  "length xs = length c \<Longrightarrow> map butlast (map2 (\<lambda>row v. row @ [v]) xs c) = xs"
  by (induction xs c rule: list_induct2) simp_all

lemma butlast_concatenate:
  "length c = length (rows x) \<Longrightarrow> map butlast (rows (concatenate_axis1 x c)) = rows x"
  using butlast_snoc_rows [of "rows x" c] by (simp add: concatenate_axis1_def)

lemma snoc_replicate_rows:
  "map2 (\<lambda>row v. row @ [v]) xs (replicate (length xs) a) = map (\<lambda>row. row @ [a]) xs"
  by (induction xs) simp_all

lemma observables_noise_level [simp]:
  "training_samples smp (ft\<lparr>noise_level := nl\<rparr>) r = training_samples smp ft r"
  "rng_after_training smp (ft\<lparr>noise_level := nl\<rparr>) r = rng_after_training smp ft r"
  "scaling_vector smp (ft\<lparr>noise_level := nl\<rparr>) r = scaling_vector smp ft r"
  "function_values smp (ft\<lparr>noise_level := nl\<rparr>) r = function_values smp ft r"
  by (simp_all add: training_samples_def rng_after_training_def scaling_vector_def
        function_values_def)

lemma test_samples_noise_level:
  "length nl = length (noise_level ft) \<Longrightarrow>
     test_samples smp (ft\<lparr>noise_level := nl\<rparr>) n r = test_samples smp ft n r"
  by (simp add: test_samples_def noise_calls_def)

section \<open>The example run\<close>

lemma upt2: "[0..<2] = [0, 1]" by (simp add: upt_rec)

lemmas ex_defs =
  sampler_ex_def function_ex_def world_ex_def dataset_ex_def unscaled_ex_def
  unscaled_dataset_ex_def degenerate_ex_def single_ex_def first_coordinate_def

lemmas np_defs =
  get_samples_def randn_def np_std_axis0_def np_std_def np_mean_def np_sum_def fsub_def div_rows_def mul_rows_def
  noisy_divisor_def concatenate_axis1_def np_ones_def inf_of_sign_def

lemmas observable_defs =
  training_samples_def rng_after_training_def scaling_vector_def function_values_def
  noise_calls_def test_samples_def

lemma generate_data_ex: "fst (generate_data sampler_ex function_ex 1 world_ex) = Inr dataset_ex"
  by (simp add: generate_data_def build_data_def ex_defs np_defs upt2 Let_def)

lemma generate_data_unscaled_ex:
  "fst (generate_data sampler_ex unscaled_ex 1 world_ex) = Inr unscaled_dataset_ex"
  by (simp add: generate_data_def build_data_def ex_defs np_defs upt2 Let_def)

lemma observables_ex:
  "training_samples sampler_ex function_ex 0 =
     [\<lparr>ncols = 1, rows = [[Fin 0], [Fin 4]]\<rparr>, \<lparr>ncols = 1, rows = [[Fin 2]]\<rparr>]"
  "scaling_vector sampler_ex function_ex 0 = [Fin 2]"
  "function_values sampler_ex function_ex 0 = [[Fin 0, Fin 12], [Fin 2]]"
  "fst (noise_calls sampler_ex function_ex 0) = [[Fin 3, Fin 3], [Fin 4]]"
  "test_samples sampler_ex function_ex (Suc 0) 0 = \<lparr>ncols = 1, rows = [[Fin 5]]\<rparr>"
  by (simp_all add: observable_defs ex_defs np_defs upt2 Let_def)

lemma fields_ex:
  "y_scale function_ex = Fin 2" "noise_level function_ex = [Fin (1 / 2), Fin 0]"
  "num_data function_ex = [2, 1]" "do_x_scaling function_ex" "snd (fcn function_ex) = ()"
  "rng world_ex = 0" "stdout world_ex = []"
  by (simp_all add: function_ex_def world_ex_def)

lemma fields_unscaled_ex:
  "y_scale unscaled_ex = Fin 2" "noise_level unscaled_ex = [Fin (1 / 2), Fin 0]"
  "num_data unscaled_ex = [2, 1]" "\<not> do_x_scaling unscaled_ex" "snd (fcn unscaled_ex) = ()"
  by (simp_all add: unscaled_ex_def function_ex_def)

lemma observables_unscaled_ex:
  "training_samples sampler_ex unscaled_ex 0 =
     [\<lparr>ncols = 1, rows = [[Fin 0], [Fin 4]]\<rparr>, \<lparr>ncols = 1, rows = [[Fin 2]]\<rparr>]"
  "test_samples sampler_ex unscaled_ex (Suc 0) 0 = \<lparr>ncols = 1, rows = [[Fin 5]]\<rparr>"
  by (simp_all add: observable_defs ex_defs np_defs upt2 Let_def)

section \<open>Properties of generate_data\<close>

text \<open>
  Claim C1. For every training fidelity level \<open>i\<close> (one that has a noise level), each
  output \<open>Y[i][k]\<close> returned by \<open>generate_data\<close> is the function value divided by
  \<open>y_scale + noise_level[i] * z\<close>, where \<open>z\<close> is the k-th value of the i-th normal
  draw: the noise is part of the divisor. There is one draw per output. The witness
  evaluates a run, where the divisor form gives 24/7 and adding the noise after dividing
  by \<open>y_scale\<close> would give 15/2.
\<close>

theorem generate_data_noise_in_divisor:
  assumes ret: "fst (generate_data smp ft n w) = Inr d"
    and i: "i < length (num_data ft)" "i < length (noise_level ft)"
  shows "length (Y_train d ! i) = length (function_values smp ft (rng w) ! i) \<and>
         (\<forall>k < length (function_values smp ft (rng w) ! i).
            Y_train d ! i ! k =
              fdiv (function_values smp ft (rng w) ! i ! k)
                (fadd (y_scale ft)
                   (fmul (noise_level ft ! i) (fst (noise_calls smp ft (rng w)) ! i ! k))))"
proof -
  let ?Y0 = "function_values smp ft (rng w)"
  let ?zs = "fst (noise_calls smp ft (rng w))"
  have Y: "Y_train d = noised (y_scale ft) ?Y0 (noise_level ft) ?zs"
    using generate_data_build [OF ret] by (rule build_data_Inr(4))
  have Yi: "Y_train d ! i = map2 fdiv (?Y0 ! i) (noisy_divisor (y_scale ft) (noise_level ft ! i) (?zs ! i))"
    using i by (simp add: Y noised_def length_function_values)
  have "i < length (map length (take (length (noise_level ft)) ?Y0))"
    using i by (simp add: length_function_values)
  from noise_draws_lengths [OF this]
  have len: "length (?zs ! i) = length (?Y0 ! i)"
    using i by (simp add: noise_calls_def length_function_values)
  show ?thesis
    by (simp add: Yi len noisy_divisor_def)
qed

theorem generate_data_noise_in_divisor_witness:
  "fst (generate_data sampler_ex function_ex 1 world_ex) = Inr dataset_ex \<and>
   Y_train dataset_ex ! 0 ! 1 = fdiv (Fin 12) (fadd (Fin 2) (fmul (Fin (1 / 2)) (Fin 3))) \<and>
   fdiv (Fin 12) (fadd (Fin 2) (fmul (Fin (1 / 2)) (Fin 3))) = Fin (24 / 7) \<and>
   fadd (fdiv (Fin 12) (Fin 2)) (fmul (Fin (1 / 2)) (Fin 3)) = Fin (15 / 2)"
proof -
  have "0 < length (num_data function_ex)" "0 < length (noise_level function_ex)"
    by (simp_all add: fields_ex)
  from generate_data_noise_in_divisor [OF generate_data_ex this]
  have "Y_train dataset_ex ! 0 ! 1 = fdiv (Fin 12) (fadd (Fin 2) (fmul (Fin (1 / 2)) (Fin 3)))"
    by (simp add: fields_ex observables_ex)
  then show ?thesis
    using generate_data_ex by simp
qed

text \<open>
  Claim C4. With \<open>do_x_scaling\<close>, the inputs of every fidelity level and the test
  inputs (the returned test array without its last column) are the samples divided by
  one vector, the column-wise standard deviation of the lowest-fidelity samples. Without
  it the vector is all ones and the returned inputs are the samples as drawn.
\<close>

theorem generate_data_input_scaling:
  assumes ret: "fst (generate_data smp ft n w) = Inr d"
  shows "(do_x_scaling ft \<longrightarrow>
            X_train d = map (\<lambda>x. div_rows x (np_std_axis0 (training_samples smp ft (rng w) ! 0)))
                          (training_samples smp ft (rng w)) \<and>
            map butlast (rows (x_test d)) =
              rows (div_rows (test_samples smp ft n (rng w))
                      (np_std_axis0 (training_samples smp ft (rng w) ! 0)))) \<and>
         (\<not> do_x_scaling ft \<longrightarrow>
            scaling_vector smp ft (rng w) = replicate (space_dim smp (snd (fcn ft))) (Fin 1) \<and>
            X_train d = training_samples smp ft (rng w) \<and>
            map butlast (rows (x_test d)) = rows (test_samples smp ft n (rng w)))"
proof -
  let ?s = "scaling_vector smp ft (rng w)"
  let ?raw = "training_samples smp ft (rng w)"
  let ?T = "test_samples smp ft n (rng w)"
  note bd = generate_data_build [OF ret]
  have X: "X_train d = map (\<lambda>x. div_rows x ?s) ?raw" using bd by (rule build_data_Inr(3))
  have xt: "x_test d = concatenate_axis1 (div_rows ?T ?s)
              (map (fmul (Fin (of_int (int (length (num_data ft)) - 1))))
                 (np_ones (length (rows ?T))))"
    using bd by (rule build_data_Inr(5))
  have bl: "map butlast (rows (x_test d)) = rows (div_rows ?T ?s)"
    unfolding xt by (rule butlast_concatenate) (simp add: np_ones_def div_rows_def)
  have ne: "num_data ft \<noteq> []" using bd by (rule build_data_Inr(1))
  show ?thesis
  proof (cases "do_x_scaling ft")
    case True
    then have "?s = np_std_axis0 (?raw ! 0)" by (simp add: scaling_vector_def)
    with True X bl show ?thesis by simp
  next
    case False
    let ?ndim = "space_dim smp (snd (fcn ft))"
    have n0: "ncols (?raw ! 0) = ?ndim"
      using training_samples_shape [of 0 ft smp "rng w"] ne by simp
    with False have s: "?s = np_ones ?ndim" by (simp add: scaling_vector_def)
    have "map (\<lambda>x. div_rows x (np_ones ?ndim)) ?raw = ?raw"
    proof (rule map_idI)
      fix x assume "x \<in> set ?raw"
      then obtain i where "i < length (num_data ft)" "x = ?raw ! i"
        by (auto simp: in_set_conv_nth length_training_samples)
      with training_samples_shape [of i ft smp "rng w"] show "div_rows x (np_ones ?ndim) = x"
        by (intro div_rows_ones) simp_all
    qed
    moreover have "div_rows ?T (np_ones ?ndim) = ?T"
      using test_samples_shape [of smp ft n "rng w"] by (intro div_rows_ones) simp_all
    ultimately show ?thesis using False X bl s by (simp add: np_ones_def)
  qed
qed

theorem generate_data_input_scaling_witness:
  "fst (generate_data sampler_ex function_ex 1 world_ex) = Inr dataset_ex \<and>
   X_train dataset_ex = map (\<lambda>x. div_rows x [Fin 2])
     [\<lparr>ncols = 1, rows = [[Fin 0], [Fin 4]]\<rparr>, \<lparr>ncols = 1, rows = [[Fin 2]]\<rparr>] \<and>
   map butlast (rows (x_test dataset_ex)) = rows (div_rows \<lparr>ncols = 1, rows = [[Fin 5]]\<rparr> [Fin 2]) \<and>
   fst (generate_data sampler_ex unscaled_ex 1 world_ex) = Inr unscaled_dataset_ex \<and>
   X_train unscaled_dataset_ex =
     [\<lparr>ncols = 1, rows = [[Fin 0], [Fin 4]]\<rparr>, \<lparr>ncols = 1, rows = [[Fin 2]]\<rparr>] \<and>
   map butlast (rows (x_test unscaled_dataset_ex)) = [[Fin 5]]"
proof -
  have std: "np_std_axis0 \<lparr>ncols = Suc 0, rows = [[Fin 0], [Fin 4]]\<rparr> = [Fin 2]"
    by (simp add: np_defs)
  from generate_data_input_scaling [OF generate_data_ex]
  have "X_train dataset_ex = map (\<lambda>x. div_rows x [Fin 2])
          [\<lparr>ncols = 1, rows = [[Fin 0], [Fin 4]]\<rparr>, \<lparr>ncols = 1, rows = [[Fin 2]]\<rparr>] \<and>
        map butlast (rows (x_test dataset_ex)) =
          rows (div_rows \<lparr>ncols = 1, rows = [[Fin 5]]\<rparr> [Fin 2])"
    by (simp add: fields_ex observables_ex std)
  moreover from generate_data_input_scaling [OF generate_data_unscaled_ex]
  have "X_train unscaled_dataset_ex =
          [\<lparr>ncols = 1, rows = [[Fin 0], [Fin 4]]\<rparr>, \<lparr>ncols = 1, rows = [[Fin 2]]\<rparr>] \<and>
        map butlast (rows (x_test unscaled_dataset_ex)) = [[Fin 5]]"
    by (simp add: fields_ex fields_unscaled_ex observables_unscaled_ex)
  ultimately show ?thesis
    using generate_data_ex generate_data_unscaled_ex by simp
qed

text \<open>
  Claim C5. Every row of the returned test inputs is the scaled test sample followed by
  one more entry, \<open>len(num_data) - 1\<close>, the same for all rows; the array has one
  column more than the test samples.
\<close>

theorem generate_data_fidelity_column:
  assumes ret: "fst (generate_data smp ft n w) = Inr d"
  shows "ncols (x_test d) = ncols (test_samples smp ft n (rng w)) + 1 \<and>
         rows (x_test d) =
           map (\<lambda>row. row @ [Fin (real (length (num_data ft) - 1))])
             (rows (div_rows (test_samples smp ft n (rng w)) (scaling_vector smp ft (rng w)))) \<and>
         (\<forall>row \<in> set (rows (x_test d)).
            row \<noteq> [] \<and> last row = Fin (real (length (num_data ft) - 1)))"
proof -
  let ?s = "scaling_vector smp ft (rng w)"
  let ?T = "test_samples smp ft n (rng w)"
  note bd = generate_data_build [OF ret]
  have xt: "x_test d = concatenate_axis1 (div_rows ?T ?s)
              (map (fmul (Fin (of_int (int (length (num_data ft)) - 1))))
                 (np_ones (length (rows ?T))))"
    using bd by (rule build_data_Inr(5))
  have len: "2 \<le> length (num_data ft)" using ret by (rule generate_data_Inr(2))
  then have "1 \<le> length (num_data ft)" by simp
  then have idx: "(of_int (int (length (num_data ft)) - 1) :: real) = real (length (num_data ft) - 1)"
    by (simp only: of_nat_diff of_int_diff of_int_of_nat_eq of_int_1 of_nat_1)
  have col: "map (fmul (Fin (of_int (int (length (num_data ft)) - 1)))) (np_ones m)
           = replicate m (Fin (real (length (num_data ft) - 1)))" for m
    unfolding idx by (simp add: np_ones_def)
  have rws: "rows (x_test d) =
           map (\<lambda>row. row @ [Fin (real (length (num_data ft) - 1))]) (rows (div_rows ?T ?s))"
    unfolding xt col
    using snoc_replicate_rows [of "rows (div_rows ?T ?s)"]
    by (simp add: concatenate_axis1_def div_rows_def)
  have "ncols (x_test d) = ncols ?T + 1"
    by (simp add: xt concatenate_axis1_def div_rows_def)
  with rws show ?thesis by auto
qed

theorem generate_data_fidelity_column_witness:
  "fst (generate_data sampler_ex function_ex 1 world_ex) = Inr dataset_ex \<and>
   ncols (x_test dataset_ex) = 2 \<and>
   rows (x_test dataset_ex) = map (\<lambda>row. row @ [Fin 1]) [[Fin (5 / 2)]]"
proof -
  from generate_data_fidelity_column [OF generate_data_ex]
  have "ncols (x_test dataset_ex) = 2 \<and>
        rows (x_test dataset_ex) = map (\<lambda>row. row @ [Fin 1]) [[Fin (5 / 2)]]"
    by (simp add: fields_ex observables_ex div_rows_def)
  then show ?thesis using generate_data_ex by simp
qed

text \<open>
  Claim C6, as amended. \<open>generate_data\<close> evaluates \<open>fcn.f[i]\<close> at the returned
  (scaled) inputs multiplied by the scaling vector, and the test outputs come from the
  last function at the scaled test inputs (the returned test inputs without their
  fidelity column) multiplied by it. When \<open>do_x_scaling\<close> is false the scaling vector
  is all ones, dividing and multiplying by it changes nothing, and the functions are
  evaluated at the samples as drawn. With scaling on, nothing is claimed about the
  products beyond how they are computed.
\<close>

theorem generate_data_evaluates_at_rescaled_inputs:
  assumes ret: "fst (generate_data smp ft n w) = Inr d"
  shows "Y_train d =
           noised (y_scale ft)
             (map (\<lambda>i. (fst (fcn ft) ! i) (mul_rows (X_train d ! i) (scaling_vector smp ft (rng w))))
                [0..<length (num_data ft)])
             (noise_level ft) (fst (noise_calls smp ft (rng w))) \<and>
         y_test d = map (\<lambda>v. fdiv v (y_scale ft))
                      ((last (fst (fcn ft)))
                         (mul_rows (div_rows (test_samples smp ft n (rng w))
                                      (scaling_vector smp ft (rng w)))
                            (scaling_vector smp ft (rng w)))) \<and>
         map butlast (rows (x_test d)) =
           rows (div_rows (test_samples smp ft n (rng w)) (scaling_vector smp ft (rng w))) \<and>
         (\<not> do_x_scaling ft \<longrightarrow>
            (\<forall>i < length (num_data ft).
               mul_rows (X_train d ! i) (scaling_vector smp ft (rng w)) =
                 training_samples smp ft (rng w) ! i) \<and>
            Y_train d =
              noised (y_scale ft)
                (map (\<lambda>i. (fst (fcn ft) ! i) (training_samples smp ft (rng w) ! i))
                   [0..<length (num_data ft)])
                (noise_level ft) (fst (noise_calls smp ft (rng w))) \<and>
            y_test d = map (\<lambda>v. fdiv v (y_scale ft))
                         ((last (fst (fcn ft))) (test_samples smp ft n (rng w))))"
proof -
  let ?s = "scaling_vector smp ft (rng w)"
  let ?raw = "training_samples smp ft (rng w)"
  let ?T = "test_samples smp ft n (rng w)"
  note bd = generate_data_build [OF ret]
  have X: "X_train d = map (\<lambda>x. div_rows x ?s) ?raw" using bd by (rule build_data_Inr(3))
  have Xi: "X_train d ! i = div_rows (?raw ! i) ?s" if "i < length (num_data ft)" for i
    using that by (simp add: X length_training_samples)
  have fv: "function_values smp ft (rng w) =
              map (\<lambda>i. (fst (fcn ft) ! i) (mul_rows (X_train d ! i) ?s)) [0..<length (num_data ft)]"
    unfolding function_values_def by (rule map_cong) (simp_all add: Xi)
  have Y: "Y_train d = noised (y_scale ft) (function_values smp ft (rng w)) (noise_level ft)
             (fst (noise_calls smp ft (rng w)))"
    using bd by (rule build_data_Inr(4))
  have yt: "y_test d = map (\<lambda>v. fdiv v (y_scale ft))
              ((last (fst (fcn ft))) (mul_rows (div_rows ?T ?s) ?s))"
    using bd by (rule build_data_Inr(6))
  have xt: "map butlast (rows (x_test d)) = rows (div_rows ?T ?s)"
    unfolding build_data_Inr(5) [OF bd]
    by (rule butlast_concatenate) (simp add: div_rows_def np_ones_def)
  have ne: "num_data ft \<noteq> []" using bd by (rule build_data_Inr(1))
  have lens: "length ?s = space_dim smp (snd (fcn ft))" using ne by (rule scaling_vector_length)
  {
    assume off: "\<not> do_x_scaling ft"
    then have s: "?s = np_ones (length ?s)"
      by (simp add: scaling_vector_def np_ones_def)
    have rt: "mul_rows (X_train d ! i) ?s = ?raw ! i" if "i < length (num_data ft)" for i
    proof -
      from training_samples_shape [OF that, of smp "rng w"] lens
      have wf: "wf_array (?raw ! i)" and le: "ncols (?raw ! i) \<le> length ?s" by simp_all
      have "div_rows (?raw ! i) (np_ones (length ?s)) = ?raw ! i"
        using wf le by (rule div_rows_ones)
      moreover have "mul_rows (?raw ! i) (np_ones (length ?s)) = ?raw ! i"
        using wf le by (rule mul_rows_ones)
      ultimately show ?thesis unfolding Xi [OF that] using s by simp
    qed
    from test_samples_shape [of smp ft n "rng w"] lens
    have wfT: "wf_array ?T" and leT: "ncols ?T \<le> length ?s" by simp_all
    have "div_rows ?T (np_ones (length ?s)) = ?T" using wfT leT by (rule div_rows_ones)
    moreover have "mul_rows ?T (np_ones (length ?s)) = ?T" using wfT leT by (rule mul_rows_ones)
    ultimately have "mul_rows (div_rows ?T ?s) ?s = ?T" using s by simp
    then have yt': "y_test d = map (\<lambda>v. fdiv v (y_scale ft)) ((last (fst (fcn ft))) ?T)"
      using yt by simp
    have "function_values smp ft (rng w) =
            map (\<lambda>i. (fst (fcn ft) ! i) (?raw ! i)) [0..<length (num_data ft)]"
      unfolding fv by (rule map_cong) (simp_all add: rt)
    with Y rt yt' have "(\<forall>i < length (num_data ft). mul_rows (X_train d ! i) ?s = ?raw ! i) \<and>
        Y_train d = noised (y_scale ft)
           (map (\<lambda>i. (fst (fcn ft) ! i) (?raw ! i)) [0..<length (num_data ft)])
           (noise_level ft) (fst (noise_calls smp ft (rng w))) \<and>
        y_test d = map (\<lambda>v. fdiv v (y_scale ft)) ((last (fst (fcn ft))) ?T)"
      by simp
  }
  with Y yt xt fv show ?thesis by simp
qed

theorem generate_data_evaluates_at_rescaled_inputs_witness:
  "fst (generate_data sampler_ex unscaled_ex 1 world_ex) = Inr unscaled_dataset_ex \<and>
   \<not> do_x_scaling unscaled_ex \<and>
   training_samples sampler_ex unscaled_ex (rng world_ex) =
     [\<lparr>ncols = 1, rows = [[Fin 0], [Fin 4]]\<rparr>, \<lparr>ncols = 1, rows = [[Fin 2]]\<rparr>] \<and>
   mul_rows (X_train unscaled_dataset_ex ! 0) (scaling_vector sampler_ex unscaled_ex (rng world_ex)) =
     \<lparr>ncols = 1, rows = [[Fin 0], [Fin 4]]\<rparr> \<and>
   mul_rows (X_train unscaled_dataset_ex ! 1) (scaling_vector sampler_ex unscaled_ex (rng world_ex)) =
     \<lparr>ncols = 1, rows = [[Fin 2]]\<rparr> \<and>
   y_test unscaled_dataset_ex =
     map (\<lambda>v. fdiv v (Fin 2)) (first_coordinate \<lparr>ncols = 1, rows = [[Fin 5]]\<rparr>)"
proof -
  have f: "last (fst (fcn unscaled_ex)) = first_coordinate"
    by (simp add: unscaled_ex_def function_ex_def)
  have two: "(\<forall>i<Suc (Suc 0). P i) = (P 0 \<and> P (Suc 0))" for P
    by (auto simp: less_Suc_eq)
  from generate_data_evaluates_at_rescaled_inputs [OF generate_data_unscaled_ex]
  have "mul_rows (X_train unscaled_dataset_ex ! 0)
          (scaling_vector sampler_ex unscaled_ex (rng world_ex)) =
          \<lparr>ncols = 1, rows = [[Fin 0], [Fin 4]]\<rparr> \<and>
        mul_rows (X_train unscaled_dataset_ex ! 1)
          (scaling_vector sampler_ex unscaled_ex (rng world_ex)) =
          \<lparr>ncols = 1, rows = [[Fin 2]]\<rparr> \<and>
        y_test unscaled_dataset_ex =
          map (\<lambda>v. fdiv v (Fin 2)) (first_coordinate \<lparr>ncols = 1, rows = [[Fin 5]]\<rparr>)"
    by (auto simp: fields_unscaled_ex fields_ex observables_unscaled_ex f two)
  then show ?thesis
    using generate_data_unscaled_ex
    by (simp add: fields_unscaled_ex fields_ex observables_unscaled_ex)
qed

text \<open>
  The claim as stated, for every run, fails: with a single lowest-fidelity sample the
  standard deviation is 0, the scaled input is \<open>1 / 0 = inf\<close>, and the function is
  evaluated at \<open>inf * 0 = nan\<close>, not at the sample 1.
\<close>

theorem generate_data_round_trip_counterexample:
  "fst (generate_data sampler_ex degenerate_ex 1 \<lparr>rng = 1, stdout = []\<rparr>) =
     Inr \<lparr>x_test = \<lparr>ncols = 2, rows = [[PInf, Fin 1]]\<rparr>, y_test = [NaN],
          X_train = [\<lparr>ncols = 1, rows = [[PInf]]\<rparr>, \<lparr>ncols = 1, rows = [[PInf]]\<rparr>],
          Y_train = [[NaN], [NaN]]\<rparr> \<and>
   training_samples sampler_ex degenerate_ex 1 ! 0 = \<lparr>ncols = 1, rows = [[Fin 1]]\<rparr> \<and>
   scaling_vector sampler_ex degenerate_ex 1 = [Fin 0] \<and>
   mul_rows \<lparr>ncols = 1, rows = [[PInf]]\<rparr> [Fin 0] = \<lparr>ncols = 1, rows = [[NaN]]\<rparr> \<and>
   function_values sampler_ex degenerate_ex 1 ! 0 = [NaN] \<and>
   (fst (fcn degenerate_ex) ! 0) (training_samples sampler_ex degenerate_ex 1 ! 0) = [Fin 3]"
  by (simp add: generate_data_def build_data_def observable_defs ex_defs np_defs upt2 Let_def)

text \<open>
  Claim C9. The returned test targets are the values of the last (highest-fidelity)
  function divided by \<open>y_scale\<close>; no noise level and no normal draw enters them, and
  replacing the noise levels by any others (as many) leaves the test set unchanged.
\<close>

theorem generate_data_test_targets_noise_free:
  assumes ret: "fst (generate_data smp ft n w) = Inr d"
    and len: "length nl = length (noise_level ft)"
  shows "y_test d = map (\<lambda>v. fdiv v (y_scale ft))
                      ((last (fst (fcn ft)))
                         (mul_rows (div_rows (test_samples smp ft n (rng w))
                                      (scaling_vector smp ft (rng w)))
                            (scaling_vector smp ft (rng w)))) \<and>
         (\<exists>d'. fst (generate_data smp (ft\<lparr>noise_level := nl\<rparr>) n w) = Inr d' \<and>
               y_test d' = y_test d \<and> x_test d' = x_test d \<and> X_train d' = X_train d)"
proof
  note bd = generate_data_build [OF ret]
  show yt: "y_test d = map (\<lambda>v. fdiv v (y_scale ft))
                      ((last (fst (fcn ft)))
                         (mul_rows (div_rows (test_samples smp ft n (rng w))
                                      (scaling_vector smp ft (rng w)))
                            (scaling_vector smp ft (rng w))))"
    using bd by (rule build_data_Inr(6))
  let ?ft = "ft\<lparr>noise_level := nl\<rparr>"
  have "2 \<le> length (num_data ?ft)" "length (num_data ?ft) \<le> length (fst (fcn ?ft))"
    using generate_data_Inr(2) [OF ret] build_data_Inr(2) [OF bd] by simp_all
  then have "\<exists>d'. fst (generate_data smp ?ft n w) = Inr d'"
    by (rule generate_data_returns)
  then obtain d' where ret': "fst (generate_data smp ?ft n w) = Inr d'" by blast
  note bd' = generate_data_build [OF ret']
  have "y_test d' = y_test d"
    unfolding yt build_data_Inr(6) [OF bd'] by (simp add: test_samples_noise_level [OF len])
  moreover have "x_test d' = x_test d"
    unfolding build_data_Inr(5) [OF bd] build_data_Inr(5) [OF bd']
    by (simp add: test_samples_noise_level [OF len])
  moreover have "X_train d' = X_train d"
    unfolding build_data_Inr(3) [OF bd] build_data_Inr(3) [OF bd'] by simp
  ultimately show "\<exists>d'. fst (generate_data smp ?ft n w) = Inr d' \<and>
               y_test d' = y_test d \<and> x_test d' = x_test d \<and> X_train d' = X_train d"
    using ret' by blast
qed

theorem generate_data_test_targets_noise_free_witness:
  "fst (generate_data sampler_ex function_ex 1 world_ex) = Inr dataset_ex \<and>
   length [Fin 0, Fin 0] = length (noise_level function_ex) \<and>
   y_test dataset_ex = map (\<lambda>v. fdiv v (Fin 2)) [Fin 5] \<and>
   (\<exists>d'. fst (generate_data sampler_ex (function_ex\<lparr>noise_level := [Fin 0, Fin 0]\<rparr>) 1 world_ex)
            = Inr d' \<and> y_test d' = y_test dataset_ex)"
proof -
  have len: "length [Fin 0, Fin 0] = length (noise_level function_ex)"
    by (simp add: fields_ex)
  have f: "last (fst (fcn function_ex)) = first_coordinate"
    by (simp add: function_ex_def)
  from generate_data_test_targets_noise_free [OF generate_data_ex len]
  have "y_test dataset_ex = map (\<lambda>v. fdiv v (Fin 2)) [Fin 5] \<and>
    (\<exists>d'. fst (generate_data sampler_ex (function_ex\<lparr>noise_level := [Fin 0, Fin 0]\<rparr>) 1 world_ex)
            = Inr d' \<and> y_test d' = y_test dataset_ex)"
    by (auto simp: fields_ex observables_ex f first_coordinate_def div_rows_def mul_rows_def)
  then show ?thesis using generate_data_ex len by auto
qed

text \<open>
  Claim C10. With exactly one entry in \<open>num_data\<close>, \<open>generate_data\<close> raises
  IndexError (at \<open>X[1]\<close>), although, when \<open>fcn.f\<close> is not empty, all the arrays it
  would return have been built.
\<close>

theorem generate_data_single_fidelity_raises:
  assumes one: "length (num_data ft) = 1"
  shows "fst (generate_data smp ft n w) = Inl IndexError \<and>
         (fst (fcn ft) \<noteq> [] \<longrightarrow> (\<exists>d r. build_data smp ft n (rng w) = (Inr d, r)))"
proof
  obtain res r' where bd: "build_data smp ft n (rng w) = (res, r')"
    by (cases "build_data smp ft n (rng w)")
  show "fst (generate_data smp ft n w) = Inl IndexError"
  proof (cases res)
    case (Inl e)
    with bd build_data_Inl [of smp ft n "rng w" e r'] show ?thesis
      by (simp add: generate_data_def)
  next
    case (Inr d)
    with bd have "length (X_train d) = length (num_data ft)"
      using build_data_Inr(3) [of smp ft n "rng w" d r'] by (simp add: length_training_samples)
    with one obtain x0 where "X_train d = [x0]"
      by (cases "X_train d") auto
    with bd Inr show ?thesis by (simp add: generate_data_def)
  qed
  show "fst (fcn ft) \<noteq> [] \<longrightarrow> (\<exists>d r. build_data smp ft n (rng w) = (Inr d, r))"
  proof
    assume "fst (fcn ft) \<noteq> []"
    with one have "length (num_data ft) \<le> length (fst (fcn ft))"
      by (cases "fst (fcn ft)") auto
    moreover from one have "num_data ft \<noteq> []" by auto
    ultimately show "\<exists>d r. build_data smp ft n (rng w) = (Inr d, r)"
      by (intro build_data_returns)
  qed
qed

theorem generate_data_single_fidelity_raises_witness:
  "length (num_data single_ex) = 1 \<and> fst (fcn single_ex) \<noteq> [] \<and>
   fst (generate_data sampler_ex single_ex 1 world_ex) = Inl IndexError \<and>
   (\<exists>d r. build_data sampler_ex single_ex 1 (rng world_ex) = (Inr d, r))"
proof -
  have one: "length (num_data single_ex) = 1" and fs: "fst (fcn single_ex) \<noteq> []"
    by (simp_all add: single_ex_def function_ex_def)
  from generate_data_single_fidelity_raises [OF one, of sampler_ex 1 world_ex] fs one
  show ?thesis by simp
qed

section \<open>Lemmas on calculate_metrics and print_metrics\<close>

lemma ln_gaussian_density:
  assumes "0 < sigma"
  shows "ln (gaussian_density mu sigma x) =
           - ((x - mu) / sigma)\<^sup>2 / 2 - ln (sqrt (2 * pi)) - ln sigma"
proof -
  have pos: "0 < sigma * sqrt (2 * pi)" using assms by simp
  have "ln (gaussian_density mu sigma x) =
          - (x - mu)\<^sup>2 / (2 * sigma\<^sup>2) - ln (sigma * sqrt (2 * pi))"
    unfolding gaussian_density_def using pos by (simp add: ln_div)
  also have "ln (sigma * sqrt (2 * pi)) = ln sigma + ln (sqrt (2 * pi))"
    using assms by (simp add: ln_mult)
  also have "- (x - mu)\<^sup>2 / (2 * sigma\<^sup>2) = - ((x - mu) / sigma)\<^sup>2 / 2"
    by (simp add: power_divide)
  finally show ?thesis by simp
qed

lemma np_sum_Fin: "np_sum (map Fin xs) = Fin (sum_list xs)"
  by (induction xs) (simp_all add: np_sum_def)

lemma sum_list_map2_nth:
  "length xs = length ys \<Longrightarrow>
     sum_list (map2 f xs ys) = (\<Sum>i<length xs. f (xs ! i) (ys ! i) :: real)"
proof -
  assume len: "length xs = length ys"
  have "sum_list (map2 f xs ys) = (\<Sum>i = 0..<length (map2 f xs ys). map2 f xs ys ! i)"
    by (rule sum_list_sum_nth)
  also have "\<dots> = (\<Sum>i = 0..<length xs. f (xs ! i) (ys ! i))"
    using len by (intro sum.cong) simp_all
  finally show ?thesis by (simp add: atLeast0LessThan)
qed

lemma sum_list_map_nth:
  "sum_list (map f xs) = (\<Sum>i<length xs. f (xs ! i) :: real)"
proof -
  have "sum_list (map f xs) = (\<Sum>i = 0..<length (map f xs). map f xs ! i)"
    by (rule sum_list_sum_nth)
  also have "\<dots> = (\<Sum>i = 0..<length xs. f (xs ! i))"
    by (intro sum.cong) simp_all
  finally show ?thesis by (simp add: atLeast0LessThan)
qed

lemma check_reg_targets_Fin:
  "length ms = length ys \<Longrightarrow> ys \<noteq> [] \<Longrightarrow> check_reg_targets (map Fin ys) (map Fin ms)"
  by (simp add: check_reg_targets_def all_finite_def list_all_iff)

lemma real_of_Fin [simp]: "map real_of (map Fin xs) = xs" "map (real_of \<circ> Fin) xs = xs"
  by (simp_all add: comp_def)

lemma logpdf_columns_Fin:
  assumes "length ms = length ys" "length vs = length ys" "\<forall>v\<in>set vs. 0 < v"
  shows "norm_logpdf_columns (map Fin ys) (map Fin ms) (map fsqrt (map Fin vs)) =
           Inr (map Fin (map (\<lambda>i. ln (gaussian_density (ms ! i) (sqrt (vs ! i)) (ys ! i)))
                           [0..<length ys]))"
proof -
  have "map (\<lambda>(a, b, s). norm_logpdf a b s)
          (zip (map Fin ys) (zip (map Fin ms) (map fsqrt (map Fin vs)))) =
        map Fin (map (\<lambda>i. ln (gaussian_density (ms ! i) (sqrt (vs ! i)) (ys ! i))) [0..<length ys])"
  proof (rule nth_equalityI)
    show "length (map (\<lambda>(a, b, s). norm_logpdf a b s)
            (zip (map Fin ys) (zip (map Fin ms) (map fsqrt (map Fin vs))))) =
          length (map Fin (map (\<lambda>i. ln (gaussian_density (ms ! i) (sqrt (vs ! i)) (ys ! i)))
            [0..<length ys]))"
      using assms by simp
  next
    fix i
    assume "i < length (map (\<lambda>(a, b, s). norm_logpdf a b s)
            (zip (map Fin ys) (zip (map Fin ms) (map fsqrt (map Fin vs)))))"
    with assms have i: "i < length ys" by simp
    with assms have pos: "0 < vs ! i" by simp
    then have "norm_logpdf (Fin (ys ! i)) (Fin (ms ! i)) (fsqrt (Fin (vs ! i))) =
               Fin (ln (gaussian_density (ms ! i) (sqrt (vs ! i)) (ys ! i)))"
      by (simp add: norm_logpdf_def ln_gaussian_density)
    with i assms show "map (\<lambda>(a, b, s). norm_logpdf a b s)
            (zip (map Fin ys) (zip (map Fin ms) (map fsqrt (map Fin vs)))) ! i =
          map Fin (map (\<lambda>i. ln (gaussian_density (ms ! i) (sqrt (vs ! i)) (ys ! i)))
            [0..<length ys]) ! i"
      by simp
  qed
  with assms show ?thesis by (simp add: norm_logpdf_columns_def)
qed

lemma calculate_metrics_returns:
  assumes "check_reg_targets y m" "length v = length y"
  shows "\<exists>mm. calculate_metrics y m v = Inr mm"
  using assms
  by (simp add: calculate_metrics_def r2_score_def mean_squared_error_def
        norm_logpdf_columns_def Let_def)

lemma np_mean_Fin:
  "xs \<noteq> [] \<Longrightarrow> np_mean (map Fin xs) = Fin (arithmetic_mean xs)"
  by (simp add: np_mean_def np_sum_Fin arithmetic_mean_def)

lemma finite_column_reals:
  "list_all is_finite vs \<Longrightarrow> vs = map Fin (map real_of vs)"
proof (induction vs)
  case Nil
  then show ?case by simp
next
  case (Cons v vs)
  then show ?case by (cases v) simp_all
qed

lemma np_mean_finite:
  assumes "vs \<noteq> []" "list_all is_finite vs"
  shows "np_mean vs = Fin (arithmetic_mean (map real_of vs))"
proof -
  from assms(2) have "vs = map Fin (map real_of vs)" by (rule finite_column_reals)
  then have "np_mean vs = np_mean (map Fin (map real_of vs))" by simp
  also have "\<dots> = Fin (arithmetic_mean (map real_of vs))"
    using assms(1) by (intro np_mean_Fin) simp
  finally show ?thesis .
qed

lemma metric_values_Inr:
  assumes "metric_values runs nm key = Inr vs"
  shows "(\<forall>run \<in> set runs. map_of run nm \<noteq> None) \<and>
         (key = ''r2'' \<longrightarrow> vs = map (\<lambda>run. r2 (the (map_of run nm))) runs) \<and>
         (key = ''mnll'' \<longrightarrow> vs = map (\<lambda>run. mnll (the (map_of run nm))) runs) \<and>
         (key = ''rmse'' \<longrightarrow> vs = map (\<lambda>run. rmse (the (map_of run nm))) runs)"
  using assms
proof (induction runs arbitrary: vs)
  case Nil
  then show ?case by simp
next
  case (Cons run runs)
  from Cons.prems obtain m v vs' where
    m: "map_of run nm = Some m" and v: "metric_get m key = Inr v"
    and rest: "metric_values runs nm key = Inr vs'" and vs: "vs = v # vs'"
    by (auto simp: dict_get_def split: option.splits sum.splits)
  from Cons.IH [OF rest] m v vs show ?case
    by (auto simp: metric_get_def split: if_splits)
qed

lemma mean_row_Inr:
  assumes "mean_row runs nm [''r2'', ''mnll'', ''rmse''] = Inr means"
  shows "(\<forall>run \<in> set runs. map_of run nm \<noteq> None) \<and>
         means = [np_mean (map (\<lambda>run. r2 (the (map_of run nm))) runs),
                  np_mean (map (\<lambda>run. mnll (the (map_of run nm))) runs),
                  np_mean (map (\<lambda>run. rmse (the (map_of run nm))) runs)]"
proof -
  from assms obtain v1 v2 v3 where
    v1: "metric_values runs nm ''r2'' = Inr v1"
    and v2: "metric_values runs nm ''mnll'' = Inr v2"
    and v3: "metric_values runs nm ''rmse'' = Inr v3"
    and means: "means = [np_mean v1, np_mean v2, np_mean v3]"
    by (auto split: sum.splits)
  from metric_values_Inr [OF v1] metric_values_Inr [OF v2] metric_values_Inr [OF v3] means
  show ?thesis by simp
qed

lemma table_rows_Inr:
  assumes "table_rows runs model_names metric_names = Inr rws"
  shows "map fst rws = model_names \<and>
         (\<forall>(nm, means) \<in> set rws. mean_row runs nm metric_names = Inr means)"
  using assms
proof (induction model_names arbitrary: rws)
  case Nil
  then show ?case by simp
next
  case (Cons nm model_names)
  from Cons.prems obtain means rws' where
    row: "mean_row runs nm metric_names = Inr means"
    and rest: "table_rows runs model_names metric_names = Inr rws'"
    and rws: "rws = (nm, means) # rws'"
    by (auto split: sum.splits)
  from Cons.IH [OF rest] row rws show ?case by simp
qed

lemma metric_values_returns:
  assumes "\<forall>run \<in> set runs. nm \<in> set (map fst run)"
    and "key \<in> {''r2'', ''mnll'', ''rmse''}"
  shows "\<exists>vs. metric_values runs nm key = Inr vs"
  using assms(1)
proof (induction runs)
  case Nil
  then show ?case by simp
next
  case (Cons run runs)
  then obtain vs where vs: "metric_values runs nm key = Inr vs" by auto
  from Cons.prems have "nm \<in> set (map fst run)" by simp
  then obtain m where m: "map_of run nm = Some m"
    by (cases "map_of run nm") (auto simp: map_of_eq_None_iff)
  from assms(2) obtain v where v: "metric_get m key = Inr v"
    by (auto simp: metric_get_def)
  from vs m v show ?case by (simp add: dict_get_def)
qed

lemma mean_row_returns:
  assumes "\<forall>run \<in> set runs. nm \<in> set (map fst run)"
  shows "\<exists>means. mean_row runs nm [''r2'', ''mnll'', ''rmse''] = Inr means"
proof -
  from metric_values_returns [OF assms, of "''r2''"] obtain v1
    where "metric_values runs nm ''r2'' = Inr v1" by auto
  moreover from metric_values_returns [OF assms, of "''mnll''"] obtain v2
    where "metric_values runs nm ''mnll'' = Inr v2" by auto
  moreover from metric_values_returns [OF assms, of "''rmse''"] obtain v3
    where "metric_values runs nm ''rmse'' = Inr v3" by auto
  ultimately show ?thesis by simp
qed

lemma table_rows_returns:
  assumes "\<forall>nm \<in> set model_names. \<forall>run \<in> set runs. nm \<in> set (map fst run)"
  shows "\<exists>rws. table_rows runs model_names [''r2'', ''mnll'', ''rmse''] = Inr rws"
  using assms
proof (induction model_names)
  case Nil
  then show ?case by simp
next
  case (Cons nm model_names)
  then obtain rws where
    "table_rows runs model_names [''r2'', ''mnll'', ''rmse''] = Inr rws" by auto
  moreover from Cons.prems have "\<forall>run \<in> set runs. nm \<in> set (map fst run)" by simp
  from mean_row_returns [OF this] obtain means
    where "mean_row runs nm [''r2'', ''mnll'', ''rmse''] = Inr means" by auto
  ultimately show ?case by simp
qed

lemma metrics_table_returns:
  assumes "metrics \<noteq> []" and "\<forall>run \<in> set metrics. map fst (snd run) = names"
  shows "\<exists>t. metrics_table metrics = Inr t"
proof -
  from assms(1) obtain k first rest where m: "metrics = (k, first) # rest"
    by (cases metrics) auto
  with assms(2) have "map fst first = names" by simp
  have "nm \<in> set (map fst run)"
    if "nm \<in> set (map fst first)" "run \<in> set (map snd metrics)" for nm run
  proof -
    from that(2) obtain e where "e \<in> set metrics" "run = snd e" by auto
    with assms(2) have "map fst run = names" by simp
    with \<open>map fst first = names\<close> that(1) show ?thesis by simp
  qed
  then have "\<forall>nm \<in> set (map fst first). \<forall>run \<in> set (map snd metrics).
                        nm \<in> set (map fst run)"
    by blast
  from table_rows_returns [OF this] obtain rws where
    "table_rows (map snd metrics) (map fst first) [''r2'', ''mnll'', ''rmse''] = Inr rws"
    by auto
  with m show ?thesis by (simp add: metrics_table_def)
qed

lemma dict_set_new: "k \<notin> set (map fst d) \<Longrightarrow> dict_set d k v = d @ [(k, v)]"
  by (simp add: dict_set_def)

lemma dict_set_values:
  "run \<in> set (dict_set d k v) \<Longrightarrow> run \<in> set d \<or> snd run = v"
  by (auto simp: dict_set_def split: if_splits)

lemma dict_set_nonempty: "dict_set d k v \<noteq> []"
  by (cases d) (auto simp: dict_set_def)

lemma positive_variances_reals:
  assumes "positive_variances y_var"
  shows "y_var = map Fin (map real_of y_var)" and "\<forall>v \<in> set (map real_of y_var). 0 < v"
proof -
  from assms have "list_all is_finite y_var"
    by (simp add: positive_variances_def list_all_iff)
  then show "y_var = map Fin (map real_of y_var)" by (rule finite_column_reals)
  from assms show "\<forall>v \<in> set (map real_of y_var). 0 < v"
    by (simp add: positive_variances_def list_all_iff)
qed

lemma calculate_metrics_Inr:
  assumes "calculate_metrics yt y_mean y_var = Inr m"
  shows "standard_metrics yt y_mean y_var m"
proof -
  let ?ys = "map real_of yt"
  let ?ms = "map real_of y_mean"
  let ?vs = "map real_of y_var"
  let ?n = "real (length ?ys)"
  from assms have chk: "check_reg_targets yt y_mean"
    by (auto simp: calculate_metrics_def r2_score_def split: if_splits)
  then have fin: "all_finite yt" "all_finite y_mean" and len: "length y_mean = length yt"
    and ne: "yt \<noteq> []"
    by (simp_all add: check_reg_targets_def)
  from assms chk obtain lp where
    lp: "norm_logpdf_columns yt y_mean (map fsqrt y_var) = Inr lp"
    and m: "m = \<lparr>r2 = Fin (if total_sum_of_squares ?ys \<noteq> 0
                           then 1 - residual_sum_of_squares ?ys ?ms / total_sum_of_squares ?ys
                           else if residual_sum_of_squares ?ys ?ms \<noteq> 0 then 0 else 1),
                 rmse = fsqrt (Fin (residual_sum_of_squares ?ys ?ms / ?n)),
                 mnll = fdiv (fneg (np_sum lp)) (Fin (real (length yt)))\<rparr>"
    by (auto simp: calculate_metrics_def r2_score_def mean_squared_error_def Let_def
          residual_sum_of_squares_def total_sum_of_squares_def arithmetic_mean_def
          split: sum.splits)
  have "0 \<le> residual_sum_of_squares ?ys ?ms"
    unfolding residual_sum_of_squares_def by (rule sum_list_nonneg) auto
  then have "0 \<le> residual_sum_of_squares ?ys ?ms / ?n" by simp
  then have rmse: "rmse m = Fin (sqrt (residual_sum_of_squares ?ys ?ms / ?n))"
    by (simp add: m)
  have r2: "r2 m = Fin (1 - residual_sum_of_squares ?ys ?ms / total_sum_of_squares ?ys)"
    if "total_sum_of_squares ?ys \<noteq> 0"
    using that by (simp add: m)
  have mnll: "mnll m = Fin (- log_likelihood ?ys ?ms ?vs / ?n)"
    if lv: "length y_var = length yt" and pos: "positive_variances y_var"
  proof -
    from fin have "list_all is_finite yt" by (simp add: all_finite_def)
    then have yt: "yt = map Fin ?ys" by (rule finite_column_reals)
    from fin have "list_all is_finite y_mean" by (simp add: all_finite_def)
    then have ym: "y_mean = map Fin ?ms" by (rule finite_column_reals)
    note yv = positive_variances_reals [OF pos]
    have "norm_logpdf_columns (map Fin ?ys) (map Fin ?ms) (map fsqrt (map Fin ?vs)) =
            Inr (map Fin (map (\<lambda>i. ln (gaussian_density (?ms ! i) (sqrt (?vs ! i)) (?ys ! i)))
                    [0..<length ?ys]))"
      using len lv yv(2) by (intro logpdf_columns_Fin) simp_all
    with lp yt ym yv(1)
    have "lp = map Fin (map (\<lambda>i. ln (gaussian_density (?ms ! i) (sqrt (?vs ! i)) (?ys ! i)))
                    [0..<length ?ys])"
      by simp
    then have "np_sum lp = Fin (log_likelihood ?ys ?ms ?vs)"
      unfolding log_likelihood_def by (simp only: np_sum_Fin)
    with ne show ?thesis by (simp add: m)
  qed
  from fin len ne rmse r2 mnll show ?thesis
    unfolding standard_metrics_def Let_def by blast
qed

lemma metrics_table_Inr:
  assumes "metrics_table metrics = Inr t"
  shows "t = running_averages (map snd metrics)"
    and "\<forall>nm \<in> set (map fst (hd (map snd metrics))). \<forall>run \<in> set (map snd metrics).
           map_of run nm \<noteq> None"
proof -
  let ?runs = "map snd metrics"
  let ?row = "\<lambda>nm. [average_over_runs ?runs nm r2, average_over_runs ?runs nm mnll,
                        average_over_runs ?runs nm rmse]"
  from assms obtain first others where runs: "?runs = first # others"
    by (cases ?runs) (auto simp: metrics_table_def)
  from assms runs obtain rws where
    rows: "table_rows ?runs (map fst first) [''r2'', ''mnll'', ''rmse''] = Inr rws"
    and t: "t = PrintTable [''model'', ''r2'', ''mnll'', ''rmse''] rws"
    by (auto simp: metrics_table_def Let_def split: sum.splits)
  note tr = table_rows_Inr [OF rows]
  have each: "means = ?row nm \<and> (\<forall>run \<in> set ?runs. map_of run nm \<noteq> None)"
    if "(nm, means) \<in> set rws" for nm means
  proof -
    from tr that have "mean_row ?runs nm [''r2'', ''mnll'', ''rmse''] = Inr means" by auto
    from mean_row_Inr [OF this] show ?thesis
      by (simp add: average_over_runs_def np_mean_def)
  qed
  have "rws = map (\<lambda>nm. (nm, ?row nm)) (map fst rws)"
    using each by (intro nth_equalityI) (auto simp: set_conv_nth, metis prod.collapse)
  with tr t runs show "t = running_averages ?runs"
    by (simp add: running_averages_def)
  show "\<forall>nm \<in> set (map fst (hd ?runs)). \<forall>run \<in> set ?runs. map_of run nm \<noteq> None"
  proof
    fix nm assume "nm \<in> set (map fst (hd ?runs))"
    with runs tr have "nm \<in> set (map fst rws)" by simp
    then obtain means where "(nm, means) \<in> set rws" by auto
    with each show "\<forall>run \<in> set ?runs. map_of run nm \<noteq> None" by blast
  qed
qed

section \<open>Lemmas on the benchmark driver\<close>

lemma benchmark_loop_Cons_Inr:
  assumes "benchmark_loop lib (model # models) xt yt M0 w = (Inr M, w')"
  shows "\<exists>fitted g1 y_mean y_var g2 m.
           optimize lib model (rng w) = (Inr fitted, g1) \<and>
           predict lib fitted xt g1 = (Inr (y_mean, y_var), g2) \<and>
           calculate_metrics yt y_mean y_var = Inr m \<and>
           standard_metrics yt y_mean y_var m \<and>
           benchmark_loop lib models xt yt (dict_set M0 (model_name fitted) m)
             (w\<lparr>rng := g2, stdout := stdout w @ model_lines (model_name fitted) (r2 m)\<rparr>)
             = (Inr M, w')"
proof -
  from assms obtain fitted g1 y_mean y_var g2 m where
    opt: "optimize lib model (rng w) = (Inr fitted, g1)"
    and pred: "predict lib fitted xt g1 = (Inr (y_mean, y_var), g2)"
    and cm: "calculate_metrics yt y_mean y_var = Inr m"
    and rest: "benchmark_loop lib models xt yt (dict_set M0 (model_name fitted) m)
                 (w\<lparr>rng := g2, stdout := stdout w @
                      model_lines (model_name fitted) (r2 m)\<rparr>) = (Inr M, w')"
    by (auto split: prod.splits sum.splits)
  from opt pred cm calculate_metrics_Inr [OF cm] rest show ?thesis by blast
qed

lemma benchmark_loop_append:
  assumes "benchmark_loop lib pre xt yt M0 w = (Inr M1, w1)"
  shows "benchmark_loop lib (pre @ rest) xt yt M0 w = benchmark_loop lib rest xt yt M1 w1"
  using assms
proof (induction pre arbitrary: M0 w)
  case Nil
  then show ?case by simp
next
  case (Cons model pre)
  from Cons.prems obtain fitted g1 y_mean y_var g2 m where
    opt: "optimize lib model (rng w) = (Inr fitted, g1)"
    and pred: "predict lib fitted xt g1 = (Inr (y_mean, y_var), g2)"
    and cm: "calculate_metrics yt y_mean y_var = Inr m"
    and rest: "benchmark_loop lib pre xt yt (dict_set M0 (model_name fitted) m)
                 (w\<lparr>rng := g2, stdout := stdout w @
                      model_lines (model_name fitted) (r2 m)\<rparr>) = (Inr M1, w1)"
    by (auto split: prod.splits sum.splits)
  from Cons.IH [OF rest] opt pred cm show ?case by simp
qed

lemma benchmark_loop_raises:
  assumes "optimize lib model (rng w) = (Inl e, g) \<or>
           (\<exists>fitted g'. optimize lib model (rng w) = (Inr fitted, g') \<and>
                         predict lib fitted xt g' = (Inl e, g))"
  shows "benchmark_loop lib (model # rest) xt yt M0 w = (Inl (e, M0), w\<lparr>rng := g\<rparr>)"
  using assms by auto

lemma test_function_Inr:
  assumes "test_function lib smp ft seed w = (Inr m, v)"
  shows "\<exists>d w1 mf g1 hf g2 lar g3 nlar g4.
           generate_data smp ft 1000 (w\<lparr>rng := random_seed smp seed\<rparr>) = (Inr d, w1) \<and>
           MultiFidelityDeepGP lib (X_train d) (Y_train d) 5000 (rng w1) = (Inr mf, g1) \<and>
           HighFidelityGp lib (X_train d) (Y_train d) g1 = (Inr hf, g2) \<and>
           LinearAutoRegressiveModel lib (X_train d) (Y_train d) g2 = (Inr lar, g3) \<and>
           NonLinearAutoRegressiveModel lib (X_train d) (Y_train d) g3 = (Inr nlar, g4) \<and>
           benchmark_models lib [hf, lar, nlar, mf\<lparr>model_name := ''mf_dgp_fix_lf_mean''\<rparr>]
             (x_test d) (y_test d) (w1\<lparr>rng := g4\<rparr>) = (Inr m, v)"
  using assms unfolding test_function_def Let_def
  by (auto split: prod.splits sum.splits)

lemma test_function_steps:
  assumes "test_function lib smp ft seed w0 = (Inr m, v)"
  shows "\<exists>d w1 mf g1 hf g2 lar g3 nlar g4
            f1 a1 mean1 var1 b1 s1 f2 a2 mean2 var2 b2 s2
            f3 a3 mean3 var3 b3 s3 f4 a4 mean4 var4 b4 s4.
           generate_data smp ft 1000 (w0\<lparr>rng := random_seed smp seed\<rparr>) = (Inr d, w1) \<and>
           MultiFidelityDeepGP lib (X_train d) (Y_train d) 5000 (rng w1) = (Inr mf, g1) \<and>
           HighFidelityGp lib (X_train d) (Y_train d) g1 = (Inr hf, g2) \<and>
           LinearAutoRegressiveModel lib (X_train d) (Y_train d) g2 = (Inr lar, g3) \<and>
           NonLinearAutoRegressiveModel lib (X_train d) (Y_train d) g3 = (Inr nlar, g4) \<and>
           optimize lib hf g4 = (Inr f1, a1) \<and>
           predict lib f1 (x_test d) a1 = (Inr (mean1, var1), b1) \<and>
           calculate_metrics (y_test d) mean1 var1 = Inr s1 \<and>
           standard_metrics (y_test d) mean1 var1 s1 \<and>
           optimize lib lar b1 = (Inr f2, a2) \<and>
           predict lib f2 (x_test d) a2 = (Inr (mean2, var2), b2) \<and>
           calculate_metrics (y_test d) mean2 var2 = Inr s2 \<and>
           standard_metrics (y_test d) mean2 var2 s2 \<and>
           optimize lib nlar b2 = (Inr f3, a3) \<and>
           predict lib f3 (x_test d) a3 = (Inr (mean3, var3), b3) \<and>
           calculate_metrics (y_test d) mean3 var3 = Inr s3 \<and>
           standard_metrics (y_test d) mean3 var3 s3 \<and>
           optimize lib (mf\<lparr>model_name := ''mf_dgp_fix_lf_mean''\<rparr>) b3 = (Inr f4, a4) \<and>
           predict lib f4 (x_test d) a4 = (Inr (mean4, var4), b4) \<and>
           calculate_metrics (y_test d) mean4 var4 = Inr s4 \<and>
           standard_metrics (y_test d) mean4 var4 s4 \<and>
           m = dict_set (dict_set (dict_set (dict_set [] (model_name f1) s1)
                 (model_name f2) s2) (model_name f3) s3) (model_name f4) s4 \<and>
           v = w1\<lparr>rng := b4,
                  stdout := stdout w1 @ model_lines (model_name f1) (r2 s1) @
                    model_lines (model_name f2) (r2 s2) @ model_lines (model_name f3) (r2 s3) @
                    model_lines (model_name f4) (r2 s4)\<rparr>"
proof -
  from test_function_Inr [OF assms] obtain d w1 mf g1 hf g2 lar g3 nlar g4 where
    gd: "generate_data smp ft 1000 (w0\<lparr>rng := random_seed smp seed\<rparr>) = (Inr d, w1)"
    and c1: "MultiFidelityDeepGP lib (X_train d) (Y_train d) 5000 (rng w1) = (Inr mf, g1)"
    and c2: "HighFidelityGp lib (X_train d) (Y_train d) g1 = (Inr hf, g2)"
    and c3: "LinearAutoRegressiveModel lib (X_train d) (Y_train d) g2 = (Inr lar, g3)"
    and c4: "NonLinearAutoRegressiveModel lib (X_train d) (Y_train d) g3 = (Inr nlar, g4)"
    and bm: "benchmark_models lib [hf, lar, nlar, mf\<lparr>model_name := ''mf_dgp_fix_lf_mean''\<rparr>]
             (x_test d) (y_test d) (w1\<lparr>rng := g4\<rparr>) = (Inr m, v)"
    by blast
  note l0 = bm [unfolded benchmark_models_def]
  from benchmark_loop_Cons_Inr [OF l0] obtain f1 a1 mean1 var1 b1 s1 where
    o1: "optimize lib hf (rng (w1\<lparr>rng := g4\<rparr>)) = (Inr f1, a1)"
    and p1: "predict lib f1 (x_test d) a1 = (Inr (mean1, var1), b1)"
    and m1: "calculate_metrics (y_test d) mean1 var1 = Inr s1"
    and t1: "standard_metrics (y_test d) mean1 var1 s1"
    and l1: "benchmark_loop lib [lar, nlar, mf\<lparr>model_name := ''mf_dgp_fix_lf_mean''\<rparr>]
               (x_test d) (y_test d) (dict_set [] (model_name f1) s1)
               (w1\<lparr>rng := g4\<rparr>\<lparr>rng := b1, stdout := stdout (w1\<lparr>rng := g4\<rparr>) @
                  model_lines (model_name f1) (r2 s1)\<rparr>) = (Inr m, v)"
    by blast
  define u1 where "u1 = w1\<lparr>rng := b1, stdout := stdout w1 @ model_lines (model_name f1) (r2 s1)\<rparr>"
  from l1 have l1': "benchmark_loop lib [lar, nlar, mf\<lparr>model_name := ''mf_dgp_fix_lf_mean''\<rparr>]
               (x_test d) (y_test d) (dict_set [] (model_name f1) s1) u1 = (Inr m, v)"
    by (simp add: u1_def)
  from benchmark_loop_Cons_Inr [OF l1'] obtain f2 a2 mean2 var2 b2 s2 where
    o2: "optimize lib lar (rng u1) = (Inr f2, a2)"
    and p2: "predict lib f2 (x_test d) a2 = (Inr (mean2, var2), b2)"
    and m2: "calculate_metrics (y_test d) mean2 var2 = Inr s2"
    and t2: "standard_metrics (y_test d) mean2 var2 s2"
    and l2: "benchmark_loop lib [nlar, mf\<lparr>model_name := ''mf_dgp_fix_lf_mean''\<rparr>]
               (x_test d) (y_test d)
               (dict_set (dict_set [] (model_name f1) s1) (model_name f2) s2)
               (u1\<lparr>rng := b2, stdout := stdout u1 @ model_lines (model_name f2) (r2 s2)\<rparr>)
               = (Inr m, v)"
    by blast
  define u2 where "u2 = u1\<lparr>rng := b2, stdout := stdout u1 @ model_lines (model_name f2) (r2 s2)\<rparr>"
  from benchmark_loop_Cons_Inr [OF l2 [folded u2_def]] obtain f3 a3 mean3 var3 b3 s3 where
    o3: "optimize lib nlar (rng u2) = (Inr f3, a3)"
    and p3: "predict lib f3 (x_test d) a3 = (Inr (mean3, var3), b3)"
    and m3: "calculate_metrics (y_test d) mean3 var3 = Inr s3"
    and t3: "standard_metrics (y_test d) mean3 var3 s3"
    and l3: "benchmark_loop lib [mf\<lparr>model_name := ''mf_dgp_fix_lf_mean''\<rparr>]
               (x_test d) (y_test d)
               (dict_set (dict_set (dict_set [] (model_name f1) s1) (model_name f2) s2)
                  (model_name f3) s3)
               (u2\<lparr>rng := b3, stdout := stdout u2 @ model_lines (model_name f3) (r2 s3)\<rparr>)
               = (Inr m, v)"
    by blast
  define u3 where "u3 = u2\<lparr>rng := b3, stdout := stdout u2 @ model_lines (model_name f3) (r2 s3)\<rparr>"
  from benchmark_loop_Cons_Inr [OF l3 [folded u3_def]] obtain f4 a4 mean4 var4 b4 s4 where
    o4: "optimize lib (mf\<lparr>model_name := ''mf_dgp_fix_lf_mean''\<rparr>) (rng u3) = (Inr f4, a4)"
    and p4: "predict lib f4 (x_test d) a4 = (Inr (mean4, var4), b4)"
    and m4: "calculate_metrics (y_test d) mean4 var4 = Inr s4"
    and t4: "standard_metrics (y_test d) mean4 var4 s4"
    and l4: "benchmark_loop lib [] (x_test d) (y_test d)
               (dict_set (dict_set (dict_set (dict_set [] (model_name f1) s1) (model_name f2) s2)
                  (model_name f3) s3) (model_name f4) s4)
               (u3\<lparr>rng := b4, stdout := stdout u3 @ model_lines (model_name f4) (r2 s4)\<rparr>)
               = (Inr m, v)"
    by blast
  from o1 have o1': "optimize lib hf g4 = (Inr f1, a1)" by simp
  from o2 have o2': "optimize lib lar b1 = (Inr f2, a2)" by (simp add: u1_def)
  from o3 have o3': "optimize lib nlar b2 = (Inr f3, a3)" by (simp add: u2_def)
  from o4 have o4': "optimize lib (mf\<lparr>model_name := ''mf_dgp_fix_lf_mean''\<rparr>) b3 = (Inr f4, a4)"
    by (simp add: u3_def)
  from l4 have M: "m = dict_set (dict_set (dict_set (dict_set [] (model_name f1) s1)
                 (model_name f2) s2) (model_name f3) s3) (model_name f4) s4"
    and V: "v = w1\<lparr>rng := b4,
                  stdout := stdout w1 @ model_lines (model_name f1) (r2 s1) @
                    model_lines (model_name f2) (r2 s2) @ model_lines (model_name f3) (r2 s3) @
                    model_lines (model_name f4) (r2 s4)\<rparr>"
    by (simp_all add: u1_def u2_def u3_def)
  from gd c1 c2 c3 c4 o1' p1 m1 t1 o2' p2 m2 t2 o3' p3 m3 t3 o4' p4 m4 t4 M V
  show ?thesis by (intro exI conjI) assumption+
qed

lemma run_seeds_Cons_Inr:
  assumes "run_seeds lib smp ft i (seed # rest) M0 w = (Inr M, w')"
  shows "\<exists>m v t. test_function lib smp ft seed w = (Inr m, v) \<and>
           metrics_table (dict_set M0 (run_name ft seed) m) = Inr t \<and>
           run_seeds lib smp ft (i + 1) rest (dict_set M0 (run_name ft seed) m)
             (v\<lparr>stdout := stdout v @ [PrintAfterRuns (i + 1) (name ft), t]\<rparr>) = (Inr M, w')"
  using assms unfolding run_seeds.simps Let_def run_name_def print_metrics_def
  by (auto split: prod.splits sum.splits)

lemma run_seeds_step:
  assumes "run_seeds lib smp ft i (seed # rest) M0 w = (Inr M, w')"
    and "run_name ft seed \<notin> set (map fst M0)"
  shows "\<exists>m v t. test_function lib smp ft seed w = (Inr m, v) \<and>
           metrics_table (M0 @ [(run_name ft seed, m)]) = Inr t \<and>
           run_seeds lib smp ft (i + 1) rest (M0 @ [(run_name ft seed, m)])
             (v\<lparr>stdout := stdout v @ [PrintAfterRuns (i + 1) (name ft), t]\<rparr>) = (Inr M, w')"
  using run_seeds_Cons_Inr [OF assms(1)] dict_set_new [OF assms(2)] by simp

lemma run_seeds_append:
  assumes "run_seeds lib smp ft i pre M0 w = (Inr M1, w1)"
  shows "run_seeds lib smp ft i (pre @ rest) M0 w =
           run_seeds lib smp ft (i + length pre) rest M1 w1"
  using assms
proof (induction pre arbitrary: i M0 w)
  case Nil
  then show ?case by simp
next
  case (Cons seed pre)
  from run_seeds_Cons_Inr [OF Cons.prems] obtain m v t where
    tf: "test_function lib smp ft seed w = (Inr m, v)"
    and tab: "metrics_table (dict_set M0 (run_name ft seed) m) = Inr t"
    and rest: "run_seeds lib smp ft (i + 1) pre (dict_set M0 (run_name ft seed) m)
             (v\<lparr>stdout := stdout v @ [PrintAfterRuns (i + 1) (name ft), t]\<rparr>) = (Inr M1, w1)"
    by blast
  from Cons.IH [OF rest] tf tab show ?case
    by (simp add: Let_def run_name_def print_metrics_def)
qed

lemma run_seeds_raises:
  assumes "test_function lib smp ft seed w = (Inl e, v)"
  shows "run_seeds lib smp ft i (seed # rest) M0 w = (Inl (e, M0), v)"
  using assms by (simp add: Let_def)

lemma run_seeds_returns:
  assumes tf: "\<forall>seed w. \<exists>m v. test_function lib smp ft seed w = (Inr m, v) \<and> map fst m = names"
    and inv: "\<forall>run \<in> set M0. map fst (snd run) = names"
  shows "\<exists>M w'. run_seeds lib smp ft i sds M0 w = (Inr M, w')"
  using inv
proof (induction sds arbitrary: i M0 w)
  case Nil
  then show ?case by simp
next
  case (Cons seed sds)
  from tf obtain m v where m: "test_function lib smp ft seed w = (Inr m, v)"
    and names: "map fst m = names" by blast
  let ?M = "dict_set M0 (str_nat seed @ str_list (num_data ft)) m"
  have inv': "\<forall>run \<in> set ?M. map fst (snd run) = names"
    using Cons.prems names dict_set_values by fastforce
  from metrics_table_returns [OF dict_set_nonempty inv'] obtain t
    where t: "metrics_table ?M = Inr t" by blast
  from Cons.IH [OF inv'] obtain M w' where
    "run_seeds lib smp ft (i + 1) sds ?M
       (v\<lparr>stdout := stdout v @ [PrintAfterRuns (i + 1) (name ft), t]\<rparr>) = (Inr M, w')"
    by blast
  with m t show ?case by (simp add: Let_def print_metrics_def)
qed

lemma str_nat_seeds:
  "str_nat 123 = ''123''" "str_nat 184 = ''184''" "str_nat 202 = ''202''"
  "str_nat 289 = ''289''" "str_nat 732 = ''732''"
  by (simp_all add: str_nat.simps digit_char_def)

lemma run_name_distinct:
  "distinct [run_name ft 123, run_name ft 184, run_name ft 202, run_name ft 289, run_name ft 732]"
  by (simp add: run_name_def str_nat_seeds)

section \<open>The example benchmark\<close>

lemma print_metrics_ex:
  "print_metrics metrics_ex world_ex =
     (Inr (), \<lparr>rng = 0, stdout = [PrintTable [''model'', ''r2'', ''mnll'', ''rmse'']
                  [(''hf_gp'', [Fin (1 / 2), Fin (9 / 2), Fin 3]),
                   (''ar1'', [Fin (1 / 2), Fin 3, Fin 3])]]\<rparr>)"
  by (simp add: print_metrics_def metrics_table_def metrics_ex_def world_ex_def dict_get_def
        metric_get_def np_mean_def np_sum_def Let_def)

lemma unscaled_ex_sizes:
  "2 \<le> length (num_data unscaled_ex)"
  "length (num_data unscaled_ex) \<le> length (fst (fcn unscaled_ex))"
  by (simp_all add: unscaled_ex_def function_ex_def)

lemma get_samples_ex:
  "get_samples sampler_ex space n r =
     (\<lparr>ncols = 1, rows = map (\<lambda>i. [Fin (real (r + 4 * i))]) [0..<n]\<rparr>, r + n)"
  by (simp add: sampler_ex_def get_samples_def)

lemma generate_data_unscaled_1000:
  "\<exists>d w1. generate_data sampler_ex unscaled_ex 1000 w0 = (Inr d, w1) \<and>
     length (y_test d) = 1000 \<and> all_finite (y_test d) \<and> length (rows (x_test d)) = 1000"
proof -
  from generate_data_returns [OF unscaled_ex_sizes] obtain d where
    ret: "fst (generate_data sampler_ex unscaled_ex 1000 w0) = Inr d" by blast
  note bd = generate_data_build [OF ret]
  let ?T = "test_samples sampler_ex unscaled_ex 1000 (rng w0)"
  let ?s = "scaling_vector sampler_ex unscaled_ex (rng w0)"
  have s: "?s = [Fin 1]"
    by (simp add: scaling_vector_def training_samples_def unscaled_ex_def function_ex_def
          sampler_ex_def get_samples_def np_ones_def Let_def)
  define r where "r = snd (noise_calls sampler_ex unscaled_ex (rng w0))"
  have T: "?T = \<lparr>ncols = 1, rows = map (\<lambda>i. [Fin (real (r + 4 * i))]) [0..<1000]\<rparr>"
    unfolding test_samples_def r_def [symmetric] by (simp add: get_samples_ex)
  have rt: "mul_rows (div_rows ?T ?s) ?s = ?T"
    unfolding s T by (simp add: mul_rows_def div_rows_def comp_def)
  have last: "last (fst (fcn unscaled_ex)) = first_coordinate"
    by (simp add: unscaled_ex_def function_ex_def)
  have yt: "y_test d = map (\<lambda>i. Fin (real (r + 4 * i) / 2)) [0..<1000]"
    unfolding build_data_Inr(6) [OF bd] rt last
    by (simp add: T first_coordinate_def fields_unscaled_ex comp_def)
  have xt: "length (rows (x_test d)) = 1000"
    unfolding build_data_Inr(5) [OF bd]
    by (simp add: T s concatenate_axis1_def div_rows_def np_ones_def)
  have "generate_data sampler_ex unscaled_ex 1000 w0 =
          (Inr d, snd (generate_data sampler_ex unscaled_ex 1000 w0))"
    using ret by (cases "generate_data sampler_ex unscaled_ex 1000 w0") simp
  moreover have "length (y_test d) = 1000" by (simp add: yt)
  moreover have "all_finite (y_test d)" by (simp add: yt all_finite_def list_all_iff)
  ultimately show ?thesis using xt by blast
qed

lemma calculate_metrics_ex:
  assumes "length yt = 1000" "all_finite yt"
  shows "\<exists>mm. calculate_metrics yt (replicate 1000 (Fin 0)) (replicate 1000 (Fin 1)) = Inr mm"
proof (rule calculate_metrics_returns)
  from assms(1) have "yt \<noteq> []" by auto
  with assms show "check_reg_targets yt (replicate 1000 (Fin 0))"
    by (simp add: check_reg_targets_def all_finite_def list_all_iff)
  from assms(1) show "length (replicate 1000 (Fin 1)) = length yt" by simp
qed

lemma run_name_ex:
  "run_name unscaled_ex 123 = ''123[2, 1]''" "run_name unscaled_ex 184 = ''184[2, 1]''"
  "run_name unscaled_ex 202 = ''202[2, 1]''" "run_name unscaled_ex 289 = ''289[2, 1]''"
  "run_name unscaled_ex 732 = ''732[2, 1]''"
  by (simp_all add: run_name_def str_nat_seeds str_list_def fields_unscaled_ex str_nat.simps
        digit_char_def)

lemma noise_calls_unscaled_ex:
  "snd (noise_calls sampler_ex unscaled_ex r0) = r0 + 5"
  by (simp add: observable_defs ex_defs np_defs upt2 Let_def)

lemma generate_data_unscaled_test_set:
  "\<exists>d w1. generate_data sampler_ex unscaled_ex 1000 w0 = (Inr d, w1) \<and>
     y_test d = map (\<lambda>i. Fin (real (rng w0 + 5 + 4 * i) / 2)) [0..<1000] \<and>
     rows (x_test d) = map (\<lambda>i. [Fin (real (rng w0 + 5 + 4 * i)), Fin 1]) [0..<1000]"
proof -
  from generate_data_returns [OF unscaled_ex_sizes] obtain d where
    ret: "fst (generate_data sampler_ex unscaled_ex 1000 w0) = Inr d" by blast
  note bd = generate_data_build [OF ret]
  let ?T = "test_samples sampler_ex unscaled_ex 1000 (rng w0)"
  let ?s = "scaling_vector sampler_ex unscaled_ex (rng w0)"
  have s: "?s = [Fin 1]"
    by (simp add: scaling_vector_def training_samples_def unscaled_ex_def function_ex_def
          sampler_ex_def get_samples_def np_ones_def Let_def)
  define r where "r = rng w0 + 5"
  have T: "?T = \<lparr>ncols = 1, rows = map (\<lambda>i. [Fin (real (r + 4 * i))]) [0..<1000]\<rparr>"
    unfolding test_samples_def noise_calls_unscaled_ex r_def [symmetric]
    by (simp add: get_samples_ex)
  have rt: "mul_rows (div_rows ?T ?s) ?s = ?T"
    unfolding s T by (simp add: mul_rows_def div_rows_def comp_def)
  have last: "last (fst (fcn unscaled_ex)) = first_coordinate"
    by (simp add: unscaled_ex_def function_ex_def)
  have yt: "y_test d = map (\<lambda>i. Fin (real (r + 4 * i) / 2)) [0..<1000]"
    unfolding build_data_Inr(6) [OF bd] rt last
    by (simp add: T first_coordinate_def fields_unscaled_ex comp_def)
  have snoc: "map2 (\<lambda>row v. row @ [v]) (map f [0..<k]) (replicate k a) =
                map (\<lambda>i. f i @ [a]) [0..<k]" for f :: "nat \<Rightarrow> npfloat list" and k a
    using snoc_replicate_rows [of "map f [0..<k]" a] by (simp add: comp_def)
  have xt: "rows (x_test d) = map (\<lambda>i. [Fin (real (r + 4 * i)), Fin 1]) [0..<1000]"
    unfolding build_data_Inr(5) [OF bd]
    by (simp add: T s concatenate_axis1_def div_rows_def np_ones_def fields_unscaled_ex
          comp_def snoc)
  have "generate_data sampler_ex unscaled_ex 1000 w0 =
          (Inr d, snd (generate_data sampler_ex unscaled_ex 1000 w0))"
    using ret by (cases "generate_data sampler_ex unscaled_ex 1000 w0") simp
  with yt xt show ?thesis unfolding r_def by blast
qed

lemma residual_sum_of_squares_same: "residual_sum_of_squares ys ys = 0"
  by (simp add: residual_sum_of_squares_def zip_same_conv_map comp_def)

lemma total_sum_of_squares_zero:
  assumes "total_sum_of_squares ys = 0" and "y \<in> set ys"
  shows "y = arithmetic_mean ys"
proof -
  have "\<forall>x \<in> set (map (\<lambda>y. (y - arithmetic_mean ys)\<^sup>2) ys). x = 0"
    using assms(1) unfolding total_sum_of_squares_def
    by (subst (asm) sum_list_nonneg_eq_0_iff) auto
  with assms(2) show ?thesis by auto
qed

lemma log_likelihood_exact:
  assumes "0 < v"
  shows "log_likelihood ys ys (replicate (length ys) v) =
           - real (length ys) * (ln (sqrt (2 * pi)) + ln (sqrt v))"
proof -
  have "log_likelihood ys ys (replicate (length ys) v) =
          sum_list (map (\<lambda>i. - (ln (sqrt (2 * pi)) + ln (sqrt v))) [0..<length ys])"
    unfolding log_likelihood_def
    by (rule arg_cong [where f = sum_list], rule map_cong)
       (simp_all add: ln_gaussian_density assms)
  also have "\<dots> = - real (length ys) * (ln (sqrt (2 * pi)) + ln (sqrt v))"
    by (simp add: sum_list_triv algebra_simps)
  finally show ?thesis .
qed

lemma calculate_metrics_exact:
  assumes len: "length ys = n" and n: "1 < n" and v: "0 < v" and two: "ys ! 0 \<noteq> ys ! 1"
  shows "calculate_metrics (map Fin ys) (map Fin ys) (replicate n (Fin v)) =
           Inr \<lparr>r2 = Fin 1, rmse = Fin 0, mnll = Fin (ln (sqrt (2 * pi)) + ln (sqrt v))\<rparr>"
proof -
  from len n have ne: "ys \<noteq> []" by auto
  have chk: "check_reg_targets (map Fin ys) (map Fin ys)"
    using ne by (intro check_reg_targets_Fin) simp_all
  from calculate_metrics_returns [OF chk, of "replicate n (Fin v)"] len obtain m where
    m: "calculate_metrics (map Fin ys) (map Fin ys) (replicate n (Fin v)) = Inr m"
    by auto
  have tot: "total_sum_of_squares ys \<noteq> 0"
  proof
    assume z: "total_sum_of_squares ys = 0"
    from len n have "ys ! 0 \<in> set ys" "ys ! 1 \<in> set ys" by simp_all
    with z have "ys ! 0 = arithmetic_mean ys" "ys ! 1 = arithmetic_mean ys"
      by (simp_all add: total_sum_of_squares_zero)
    with two show False by simp
  qed
  have pos: "positive_variances (replicate n (Fin v))"
    using v by (simp add: positive_variances_def list_all_iff)
  have vs: "map real_of (replicate n (Fin v)) = replicate (length ys) v"
    using len by simp
  have ll: "- (log_likelihood ys ys (replicate (length ys) v) / real (length ys)) =
              ln (sqrt (2 * pi)) + ln (sqrt v)"
    using ne by (simp add: log_likelihood_exact [OF v])
  from calculate_metrics_Inr [OF m] tot pos len ne
  have "rmse m = Fin 0" "r2 m = Fin 1" "mnll m = Fin (ln (sqrt (2 * pi)) + ln (sqrt v))"
    unfolding standard_metrics_def Let_def real_of_Fin vs
    using ll by (simp_all add: residual_sum_of_squares_same)
  then have "m = \<lparr>r2 = Fin 1, rmse = Fin 0, mnll = Fin (ln (sqrt (2 * pi)) + ln (sqrt v))\<rparr>"
    by (cases m) simp
  with m show ?thesis by simp
qed

lemma test_function_exact_ex:
  "\<exists>v. test_function exact_library_ex sampler_ex unscaled_ex seed w =
         (Inr (if seed + 5 < 200 then first_scores_ex else later_scores_ex), v)"
proof -
  have seed: "rng (w\<lparr>rng := random_seed sampler_ex seed\<rparr>) = seed"
    by (simp add: sampler_ex_def)
  from generate_data_unscaled_test_set [of "w\<lparr>rng := random_seed sampler_ex seed\<rparr>"]
  obtain d w1 where
    gd: "generate_data sampler_ex unscaled_ex 1000 (w\<lparr>rng := random_seed sampler_ex seed\<rparr>)
           = (Inr d, w1)"
    and yt: "y_test d = map (\<lambda>i. Fin (real (seed + 5 + 4 * i) / 2)) [0..<1000]"
    and xt: "rows (x_test d) = map (\<lambda>i. [Fin (real (seed + 5 + 4 * i)), Fin 1]) [0..<1000]"
    unfolding seed by blast
  define ys where "ys = map (\<lambda>i. real (seed + 5 + 4 * i) / 2) [0..<1000]"
  have yt': "y_test d = map Fin ys" by (simp add: yt ys_def)
  have cm: "calculate_metrics (y_test d) (y_test d) (replicate 1000 (Fin v)) =
              Inr \<lparr>r2 = Fin 1, rmse = Fin 0, mnll = Fin (ln (sqrt (2 * pi)) + ln (sqrt v))\<rparr>"
    if "0 < v" for v
    unfolding yt' using _ _ that
    by (rule calculate_metrics_exact) (simp_all add: ys_def)
  have pm: "map (\<lambda>row. fdiv (row ! 0) (Fin 2)) (rows (x_test d)) = y_test d"
    by (simp add: xt yt)
  have len: "length (rows (x_test d)) = 1000" by (simp add: xt)
  have first: "real_of (rows (x_test d) ! 0 ! 0) = real (seed + 5)" by (simp add: xt)
  have "fst (test_function exact_library_ex sampler_ex unscaled_ex seed w) =
          Inr (if seed + 5 < 200 then first_scores_ex else later_scores_ex)"
    by (simp add: test_function_def gd exact_library_ex_def library_ex_def benchmark_models_def
          pm len first cm dict_set_def first_scores_ex_def later_scores_ex_def Let_def)
  then show ?thesis
    by (cases "test_function exact_library_ex sampler_ex unscaled_ex seed w") simp
qed

lemma scores_ex_names:
  "map fst first_scores_ex = names_ex" "map fst later_scores_ex = names_ex"
  by (simp_all add: first_scores_ex_def later_scores_ex_def names_ex_def)

lemma running_averages_ex:
  "running_averages
     [first_scores_ex, first_scores_ex, later_scores_ex, later_scores_ex, later_scores_ex] =
   PrintTable [''model'', ''r2'', ''mnll'', ''rmse'']
     [(''hf_gp'', [Fin 1, Fin (ln (sqrt (2 * pi))), Fin 0]),
      (''ar1'', [Fin 1, Fin (ln (sqrt (2 * pi)) + 3 * ln 2 / 5), Fin 0]),
      (''nargp'', [Fin 1, Fin (ln (sqrt (2 * pi)) + 3 * ln 2 / 5), Fin 0]),
      (''mf_dgp_fix_lf_mean'', [Fin 1, Fin (ln (sqrt (2 * pi)) + 3 * ln 2 / 5), Fin 0])]"
  by (simp add: running_averages_def average_over_runs_def first_scores_ex_def
        later_scores_ex_def np_sum_def)

section \<open>Properties of the metrics and the driver\<close>

text \<open>
  Claim C3. For finite targets and predicted means of one length n > 0 and positive
  predicted variances, \<open>calculate_metrics\<close> returns a record whose rmse is the square
  root of the mean squared error, whose mnll is minus the sum over the test points of
  the log of the normal density (mean the predicted mean, standard deviation the root of
  the predicted variance) divided by n, and whose r2 is one minus the residual over the
  total sum of squares when the targets are not all equal. The function is a function of
  its three arguments alone.
\<close>

theorem calculate_metrics_formulas:
  fixes ys ms vs :: "real list"
  assumes len: "length ms = length ys" "length vs = length ys"
    and ne: "ys \<noteq> []"
    and pos: "\<forall>v\<in>set vs. 0 < v"
  shows "\<exists>m. calculate_metrics (map Fin ys) (map Fin ms) (map Fin vs) = Inr m \<and>
           rmse m = Fin (sqrt ((\<Sum>i<length ys. (ys ! i - ms ! i)\<^sup>2) / real (length ys))) \<and>
           mnll m =
             Fin (- (\<Sum>i<length ys. ln (gaussian_density (ms ! i) (sqrt (vs ! i)) (ys ! i)))
                  / real (length ys)) \<and>
           ((\<Sum>i<length ys. (ys ! i - (\<Sum>j<length ys. ys ! j) / real (length ys))\<^sup>2) \<noteq> 0 \<longrightarrow>
            r2 m =
              Fin (1 - (\<Sum>i<length ys. (ys ! i - ms ! i)\<^sup>2)
                     / (\<Sum>i<length ys. (ys ! i - (\<Sum>j<length ys. ys ! j) / real (length ys))\<^sup>2)))"
proof -
  let ?n = "length ys"
  let ?res = "\<Sum>i<?n. (ys ! i - ms ! i)\<^sup>2"
  let ?avg = "(\<Sum>j<?n. ys ! j) / real ?n"
  let ?tot = "\<Sum>i<?n. (ys ! i - ?avg)\<^sup>2"
  let ?lp = "\<Sum>i<?n. ln (gaussian_density (ms ! i) (sqrt (vs ! i)) (ys ! i))"
  have chk: "check_reg_targets (map Fin ys) (map Fin ms)"
    using len(1) ne by (rule check_reg_targets_Fin)
  have res: "sum_list (map2 (\<lambda>a b. (a - b)\<^sup>2) ys ms) = ?res"
    using len(1) by (simp add: sum_list_map2_nth)
  have avg: "sum_list ys / real ?n = ?avg"
    using sum_list_map_nth [of "\<lambda>a. a" ys] by simp
  have tot: "sum_list (map (\<lambda>a. (a - ?avg)\<^sup>2) ys) = ?tot"
    by (simp add: sum_list_map_nth)
  have mse: "mean_squared_error (map Fin ys) (map Fin ms) = Inr (Fin (?res / real ?n))"
    using chk by (simp add: mean_squared_error_def res)
  have r2: "r2_score (map Fin ys) (map Fin ms) =
              Inr (Fin (if ?tot \<noteq> 0 then 1 - ?res / ?tot else if ?res \<noteq> 0 then 0 else 1))"
    using chk by (simp add: r2_score_def res avg tot Let_def)
  have lp: "norm_logpdf_columns (map Fin ys) (map Fin ms) (map fsqrt (map Fin vs)) =
              Inr (map Fin (map (\<lambda>i. ln (gaussian_density (ms ! i) (sqrt (vs ! i)) (ys ! i)))
                              [0..<?n]))"
    using len pos by (rule logpdf_columns_Fin)
  have sumlp: "sum_list (map (\<lambda>i. ln (gaussian_density (ms ! i) (sqrt (vs ! i)) (ys ! i))) [0..<?n]) = ?lp"
    by (simp add: interv_sum_list_conv_sum_set_nat atLeast0LessThan)
  have nonneg: "0 \<le> ?res / real ?n"
    by (intro divide_nonneg_nonneg sum_nonneg) simp_all
  have n0: "real ?n \<noteq> 0" using ne by simp
  have "calculate_metrics (map Fin ys) (map Fin ms) (map Fin vs) =
          Inr \<lparr>r2 = Fin (if ?tot \<noteq> 0 then 1 - ?res / ?tot else if ?res \<noteq> 0 then 0 else 1),
               rmse = Fin (sqrt (?res / real ?n)),
               mnll = Fin (- ?lp / real ?n)\<rparr>"
    unfolding calculate_metrics_def mse r2 lp
    using nonneg n0 np_sum_Fin [of "map (\<lambda>i. ln (gaussian_density (ms ! i) (sqrt (vs ! i)) (ys ! i))) [0..<?n]"]
    by (simp add: sumlp del: map_map)
  then show ?thesis by simp
qed

theorem calculate_metrics_formulas_witness:
  "\<exists>m. calculate_metrics [Fin 1, Fin 3] [Fin 2, Fin 2] [Fin 1, Fin 1] = Inr m \<and>
       rmse m = Fin 1 \<and> r2 m = Fin 0 \<and> mnll m = Fin (1 / 2 + ln (sqrt (2 * pi)))"
proof -
  have gd: "gaussian_density 2 1 x = exp (- (x - 2)\<^sup>2 / 2) / sqrt (2 * pi)" for x
    by (simp add: gaussian_density_def)
  have p: "(1::real)\<^sup>2 = 1" "(-1::real)\<^sup>2 = 1" by simp_all
  have lg: "ln (exp (- (1 / 2)) / sqrt (2 * pi)) = - (1 / 2) - ln (sqrt (2 * pi))"
    by (simp add: ln_div)
  from calculate_metrics_formulas [of "[2, 2]" "[1, 3]" "[1, 1]"]
  obtain m where m: "calculate_metrics [Fin 1, Fin 3] [Fin 2, Fin 2] [Fin 1, Fin 1] = Inr m"
    and "rmse m = Fin 1" "r2 m = Fin 0"
    and "mnll m = Fin ((2 * ln (sqrt (2 * pi)) + 1) / 2)"
    by (auto simp: lessThan_Suc gd lg)
  moreover have "(2 * ln (sqrt (2 * pi)) + 1) / 2 = 1 / 2 + ln (sqrt (2 * pi))"
    by (simp add: field_simps)
  ultimately show ?thesis by auto
qed

text \<open>
  Claim C7. When \<open>print_metrics\<close> returns, it has printed one table with a row for each
  model of the first run; the row of a model holds, in the order r2, mnll, rmse, the
  numpy mean of the model's values of that metric over all runs in the dictionary, which
  for finite values is their arithmetic mean (sum over count).
\<close>

theorem print_metrics_means:
  assumes "print_metrics metrics w = (Inr u, w')"
  shows "\<exists>rws. stdout w' = stdout w @ [PrintTable [''model'', ''r2'', ''mnll'', ''rmse''] rws] \<and>
           metrics \<noteq> [] \<and> map fst rws = map fst (snd (hd metrics)) \<and>
           (\<forall>nm means. (nm, means) \<in> set rws \<longrightarrow>
              (\<exists>ms. length ms = length metrics \<and>
                 (\<forall>k < length metrics. map_of (snd (metrics ! k)) nm = Some (ms ! k)) \<and>
                 means = [np_mean (map r2 ms), np_mean (map mnll ms), np_mean (map rmse ms)] \<and>
                 (list_all (\<lambda>m. is_finite (r2 m) \<and> is_finite (mnll m) \<and> is_finite (rmse m)) ms \<longrightarrow>
                    means = [Fin (arithmetic_mean (map (\<lambda>m. real_of (r2 m)) ms)),
                             Fin (arithmetic_mean (map (\<lambda>m. real_of (mnll m)) ms)),
                             Fin (arithmetic_mean (map (\<lambda>m. real_of (rmse m)) ms))])))"
proof -
  let ?runs = "map snd metrics"
  from assms obtain table where tab: "metrics_table metrics = Inr table"
    and out: "stdout w' = stdout w @ [table]"
    by (auto simp: print_metrics_def split: sum.splits)
  from tab obtain first others where runs: "?runs = first # others"
    by (cases ?runs) (auto simp: metrics_table_def)
  then have ne: "metrics \<noteq> []" by auto
  with runs have first: "first = snd (hd metrics)" by (cases metrics) auto
  from tab runs obtain rws where
    rows: "table_rows ?runs (map fst first) [''r2'', ''mnll'', ''rmse''] = Inr rws"
    and table: "table = PrintTable [''model'', ''r2'', ''mnll'', ''rmse''] rws"
    by (auto simp: metrics_table_def Let_def split: sum.splits)
  note tr = table_rows_Inr [OF rows]
  have "\<exists>ms. length ms = length metrics \<and>
          (\<forall>k < length metrics. map_of (snd (metrics ! k)) nm = Some (ms ! k)) \<and>
          means = [np_mean (map r2 ms), np_mean (map mnll ms), np_mean (map rmse ms)] \<and>
          (list_all (\<lambda>m. is_finite (r2 m) \<and> is_finite (mnll m) \<and> is_finite (rmse m)) ms \<longrightarrow>
             means = [Fin (arithmetic_mean (map (\<lambda>m. real_of (r2 m)) ms)),
                      Fin (arithmetic_mean (map (\<lambda>m. real_of (mnll m)) ms)),
                      Fin (arithmetic_mean (map (\<lambda>m. real_of (rmse m)) ms))])"
    if mem: "(nm, means) \<in> set rws" for nm means
  proof -
    from tr mem have "mean_row ?runs nm [''r2'', ''mnll'', ''rmse''] = Inr means" by auto
    from mean_row_Inr [OF this] have
      some: "\<forall>run \<in> set ?runs. map_of run nm \<noteq> None"
      and means: "means = [np_mean (map (\<lambda>run. r2 (the (map_of run nm))) ?runs),
                  np_mean (map (\<lambda>run. mnll (the (map_of run nm))) ?runs),
                  np_mean (map (\<lambda>run. rmse (the (map_of run nm))) ?runs)]"
      by simp_all
    define ms where "ms = map (\<lambda>run. the (map_of run nm)) ?runs"
    have len: "length ms = length metrics" by (simp add: ms_def)
    have look: "\<forall>k < length metrics. map_of (snd (metrics ! k)) nm = Some (ms ! k)"
      using some by (auto simp: ms_def)
    have means': "means = [np_mean (map r2 ms), np_mean (map mnll ms), np_mean (map rmse ms)]"
      by (simp add: means ms_def comp_def)
    have msne: "ms \<noteq> []" using ne len by auto
    have fin: "means = [Fin (arithmetic_mean (map (\<lambda>m. real_of (r2 m)) ms)),
                      Fin (arithmetic_mean (map (\<lambda>m. real_of (mnll m)) ms)),
                      Fin (arithmetic_mean (map (\<lambda>m. real_of (rmse m)) ms))]"
      if all: "list_all (\<lambda>m. is_finite (r2 m) \<and> is_finite (mnll m) \<and> is_finite (rmse m)) ms"
    proof -
      from all have "list_all is_finite (map r2 ms)" "list_all is_finite (map mnll ms)"
        "list_all is_finite (map rmse ms)"
        by (simp_all add: list_all_iff)
      with msne means' np_mean_finite [of "map r2 ms"] np_mean_finite [of "map mnll ms"]
        np_mean_finite [of "map rmse ms"]
      show ?thesis by (simp add: comp_def)
    qed
    from len look means' fin show ?thesis by blast
  qed
  with out table ne first tr show ?thesis by auto
qed

theorem print_metrics_means_witness:
  "print_metrics metrics_ex world_ex =
     (Inr (), \<lparr>rng = 0, stdout = [PrintTable [''model'', ''r2'', ''mnll'', ''rmse'']
                  [(''hf_gp'', [Fin (1 / 2), Fin (9 / 2), Fin 3]),
                   (''ar1'', [Fin (1 / 2), Fin 3, Fin 3])]]\<rparr>) \<and>
   (\<exists>ms. length ms = 2 \<and> map_of (snd (metrics_ex ! 0)) ''hf_gp'' = Some (ms ! 0) \<and>
         map_of (snd (metrics_ex ! 1)) ''hf_gp'' = Some (ms ! 1) \<and>
         [Fin (1 / 2), Fin (9 / 2), Fin 3] =
           [np_mean (map r2 ms), np_mean (map mnll ms), np_mean (map rmse ms)])"
proof -
  from print_metrics_means [OF print_metrics_ex] obtain rws where
    out: "[PrintTable [''model'', ''r2'', ''mnll'', ''rmse'']
            [(''hf_gp'', [Fin (1 / 2), Fin (9 / 2), Fin 3]), (''ar1'', [Fin (1 / 2), Fin 3, Fin 3])]]
          = stdout world_ex @ [PrintTable [''model'', ''r2'', ''mnll'', ''rmse''] rws]"
    and each: "\<forall>nm means. (nm, means) \<in> set rws \<longrightarrow>
              (\<exists>ms. length ms = length metrics_ex \<and>
                 (\<forall>k < length metrics_ex. map_of (snd (metrics_ex ! k)) nm = Some (ms ! k)) \<and>
                 means = [np_mean (map r2 ms), np_mean (map mnll ms), np_mean (map rmse ms)] \<and>
                 (list_all (\<lambda>m. is_finite (r2 m) \<and> is_finite (mnll m) \<and> is_finite (rmse m)) ms \<longrightarrow>
                    means = [Fin (arithmetic_mean (map (\<lambda>m. real_of (r2 m)) ms)),
                             Fin (arithmetic_mean (map (\<lambda>m. real_of (mnll m)) ms)),
                             Fin (arithmetic_mean (map (\<lambda>m. real_of (rmse m)) ms))]))"
    by auto
  from out have "rws = [(''hf_gp'', [Fin (1 / 2), Fin (9 / 2), Fin 3]),
                        (''ar1'', [Fin (1 / 2), Fin 3, Fin 3])]"
    by (simp add: world_ex_def)
  then have "(''hf_gp'', [Fin (1 / 2), Fin (9 / 2), Fin 3]) \<in> set rws"
    by simp
  with each obtain ms where "length ms = length metrics_ex"
    and "\<forall>k < length metrics_ex. map_of (snd (metrics_ex ! k)) ''hf_gp'' = Some (ms ! k)"
    and "[Fin (1 / 2), Fin (9 / 2), Fin 3] =
           [np_mean (map r2 ms), np_mean (map mnll ms), np_mean (map rmse ms)]"
    by blast
  moreover have "length metrics_ex = 2" by (simp add: metrics_ex_def)
  ultimately have "\<exists>ms. length ms = 2 \<and> map_of (snd (metrics_ex ! 0)) ''hf_gp'' = Some (ms ! 0) \<and>
         map_of (snd (metrics_ex ! 1)) ''hf_gp'' = Some (ms ! 1) \<and>
         [Fin (1 / 2), Fin (9 / 2), Fin 3] =
           [np_mean (map r2 ms), np_mean (map mnll ms), np_mean (map rmse ms)]"
    by (intro exI [of _ ms]) simp
  with print_metrics_ex show ?thesis by simp
qed

text \<open>
  Claim C2. When \<open>do_benchmark\<close> returns, it has called \<open>test_function\<close> for the seeds
  123, 184, 202, 289, 732 in this order, each call starting from the state the previous
  round left; after run k it has printed the line of k runs and the table of running
  averages over the first k runs: for every model of the first run the sum of its r2, of
  its mnll and of its rmse over these runs, divided by k. Every model of the first run
  is in every run, and the dictionary returned has the five runs in order. Every call
  of \<open>test_function\<close> that returns has set the generator to the state of its seed,
  generated the data from that state with 1000 test points, constructed the four models
  and fitted and scored them in the order high-fidelity GP, linear auto-regressive,
  non-linear auto-regressive, multi-fidelity deep GP; the metrics stored for a model are
  the standard ones for the test targets and the model's prediction at the test inputs.
\<close>

theorem do_benchmark_runs:
  assumes "do_benchmark lib smp ft w = (Inr M, w')"
  shows "(\<exists>m1 v1 m2 v2 m3 v3 m4 v4 m5 v5.
           test_function lib smp ft 123 w = (Inr m1, v1) \<and>
           test_function lib smp ft 184
             (v1\<lparr>stdout := stdout v1 @
                [PrintAfterRuns 1 (name ft), running_averages [m1]]\<rparr>) = (Inr m2, v2) \<and>
           test_function lib smp ft 202
             (v2\<lparr>stdout := stdout v2 @
                [PrintAfterRuns 2 (name ft), running_averages [m1, m2]]\<rparr>) = (Inr m3, v3) \<and>
           test_function lib smp ft 289
             (v3\<lparr>stdout := stdout v3 @
                [PrintAfterRuns 3 (name ft), running_averages [m1, m2, m3]]\<rparr>) = (Inr m4, v4) \<and>
           test_function lib smp ft 732
             (v4\<lparr>stdout := stdout v4 @
                [PrintAfterRuns 4 (name ft), running_averages [m1, m2, m3, m4]]\<rparr>)
             = (Inr m5, v5) \<and>
           M = [(run_name ft 123, m1), (run_name ft 184, m2), (run_name ft 202, m3),
                (run_name ft 289, m4), (run_name ft 732, m5)] \<and>
           w' = v5\<lparr>stdout := stdout v5 @
                  [PrintAfterRuns 5 (name ft), running_averages [m1, m2, m3, m4, m5]]\<rparr> \<and>
           (\<forall>nm \<in> set (map fst m1). \<forall>run \<in> set [m1, m2, m3, m4, m5]. map_of run nm \<noteq> None)) \<and>
         (\<forall>seed w0 m v. test_function lib smp ft seed w0 = (Inr m, v) \<longrightarrow>
            (\<exists>d w1 mf g1 hf g2 lar g3 nlar g4
              f1 a1 mean1 var1 b1 s1 f2 a2 mean2 var2 b2 s2
              f3 a3 mean3 var3 b3 s3 f4 a4 mean4 var4 b4 s4.
             generate_data smp ft 1000 (w0\<lparr>rng := random_seed smp seed\<rparr>) = (Inr d, w1) \<and>
             MultiFidelityDeepGP lib (X_train d) (Y_train d) 5000 (rng w1) = (Inr mf, g1) \<and>
             HighFidelityGp lib (X_train d) (Y_train d) g1 = (Inr hf, g2) \<and>
             LinearAutoRegressiveModel lib (X_train d) (Y_train d) g2 = (Inr lar, g3) \<and>
             NonLinearAutoRegressiveModel lib (X_train d) (Y_train d) g3 = (Inr nlar, g4) \<and>
             optimize lib hf g4 = (Inr f1, a1) \<and>
             predict lib f1 (x_test d) a1 = (Inr (mean1, var1), b1) \<and>
             calculate_metrics (y_test d) mean1 var1 = Inr s1 \<and>
             standard_metrics (y_test d) mean1 var1 s1 \<and>
             optimize lib lar b1 = (Inr f2, a2) \<and>
             predict lib f2 (x_test d) a2 = (Inr (mean2, var2), b2) \<and>
             calculate_metrics (y_test d) mean2 var2 = Inr s2 \<and>
             standard_metrics (y_test d) mean2 var2 s2 \<and>
             optimize lib nlar b2 = (Inr f3, a3) \<and>
             predict lib f3 (x_test d) a3 = (Inr (mean3, var3), b3) \<and>
             calculate_metrics (y_test d) mean3 var3 = Inr s3 \<and>
             standard_metrics (y_test d) mean3 var3 s3 \<and>
             optimize lib (mf\<lparr>model_name := ''mf_dgp_fix_lf_mean''\<rparr>) b3 = (Inr f4, a4) \<and>
             predict lib f4 (x_test d) a4 = (Inr (mean4, var4), b4) \<and>
             calculate_metrics (y_test d) mean4 var4 = Inr s4 \<and>
             standard_metrics (y_test d) mean4 var4 s4 \<and>
             m = dict_set (dict_set (dict_set (dict_set [] (model_name f1) s1)
                   (model_name f2) s2) (model_name f3) s3) (model_name f4) s4 \<and>
             v = w1\<lparr>rng := b4,
                    stdout := stdout w1 @ model_lines (model_name f1) (r2 s1) @
                      model_lines (model_name f2) (r2 s2) @ model_lines (model_name f3) (r2 s3) @
                      model_lines (model_name f4) (r2 s4)\<rparr>))"
proof (intro conjI allI impI)
  have idx: "(0::nat) + 1 = 1" "(1::nat) + 1 = 2" "(2::nat) + 1 = 3" "(3::nat) + 1 = 4"
    "(4::nat) + 1 = 5"
    by simp_all
  note d = run_name_distinct [of ft]
  from assms have r0: "run_seeds lib smp ft 0 [123, 184, 202, 289, 732] [] w = (Inr M, w')"
    by (simp add: do_benchmark_def seeds_def)
  have n0: "run_name ft 123 \<notin> set (map fst [])" by simp
  from run_seeds_step [OF r0 n0, unfolded idx append.simps] obtain m1 v1 t1 where
    s1: "test_function lib smp ft 123 w = (Inr m1, v1)"
    and t1: "metrics_table [(run_name ft 123, m1)] = Inr t1"
    and r1: "run_seeds lib smp ft 1 [184, 202, 289, 732] [(run_name ft 123, m1)]
               (v1\<lparr>stdout := stdout v1 @ [PrintAfterRuns 1 (name ft), t1]\<rparr>) = (Inr M, w')"
    by blast
  have n1: "run_name ft 184 \<notin> set (map fst [(run_name ft 123, m1)])" using d by auto
  from run_seeds_step [OF r1 n1, unfolded idx append.simps] obtain m2 v2 t2 where
    s2: "test_function lib smp ft 184
           (v1\<lparr>stdout := stdout v1 @ [PrintAfterRuns 1 (name ft), t1]\<rparr>) = (Inr m2, v2)"
    and t2: "metrics_table [(run_name ft 123, m1), (run_name ft 184, m2)] = Inr t2"
    and r2: "run_seeds lib smp ft 2 [202, 289, 732]
               [(run_name ft 123, m1), (run_name ft 184, m2)]
               (v2\<lparr>stdout := stdout v2 @ [PrintAfterRuns 2 (name ft), t2]\<rparr>) = (Inr M, w')"
    by blast
  have n2: "run_name ft 202 \<notin> set (map fst [(run_name ft 123, m1), (run_name ft 184, m2)])"
    using d by auto
  from run_seeds_step [OF r2 n2, unfolded idx append.simps] obtain m3 v3 t3 where
    s3: "test_function lib smp ft 202
           (v2\<lparr>stdout := stdout v2 @ [PrintAfterRuns 2 (name ft), t2]\<rparr>) = (Inr m3, v3)"
    and t3: "metrics_table [(run_name ft 123, m1), (run_name ft 184, m2), (run_name ft 202, m3)]
               = Inr t3"
    and r3: "run_seeds lib smp ft 3 [289, 732]
               [(run_name ft 123, m1), (run_name ft 184, m2), (run_name ft 202, m3)]
               (v3\<lparr>stdout := stdout v3 @ [PrintAfterRuns 3 (name ft), t3]\<rparr>) = (Inr M, w')"
    by blast
  have n3: "run_name ft 289 \<notin> set (map fst [(run_name ft 123, m1), (run_name ft 184, m2),
              (run_name ft 202, m3)])"
    using d by auto
  from run_seeds_step [OF r3 n3, unfolded idx append.simps] obtain m4 v4 t4 where
    s4: "test_function lib smp ft 289
           (v3\<lparr>stdout := stdout v3 @ [PrintAfterRuns 3 (name ft), t3]\<rparr>) = (Inr m4, v4)"
    and t4: "metrics_table [(run_name ft 123, m1), (run_name ft 184, m2), (run_name ft 202, m3),
                            (run_name ft 289, m4)] = Inr t4"
    and r4: "run_seeds lib smp ft 4 [732]
               [(run_name ft 123, m1), (run_name ft 184, m2), (run_name ft 202, m3),
                (run_name ft 289, m4)]
               (v4\<lparr>stdout := stdout v4 @ [PrintAfterRuns 4 (name ft), t4]\<rparr>) = (Inr M, w')"
    by blast
  have n4: "run_name ft 732 \<notin> set (map fst [(run_name ft 123, m1), (run_name ft 184, m2),
              (run_name ft 202, m3), (run_name ft 289, m4)])"
    using d by auto
  from run_seeds_step [OF r4 n4, unfolded idx append.simps] obtain m5 v5 t5 where
    s5: "test_function lib smp ft 732
           (v4\<lparr>stdout := stdout v4 @ [PrintAfterRuns 4 (name ft), t4]\<rparr>) = (Inr m5, v5)"
    and t5: "metrics_table [(run_name ft 123, m1), (run_name ft 184, m2), (run_name ft 202, m3),
                            (run_name ft 289, m4), (run_name ft 732, m5)] = Inr t5"
    and r5: "run_seeds lib smp ft 5 []
               [(run_name ft 123, m1), (run_name ft 184, m2), (run_name ft 202, m3),
                (run_name ft 289, m4), (run_name ft 732, m5)]
               (v5\<lparr>stdout := stdout v5 @ [PrintAfterRuns 5 (name ft), t5]\<rparr>) = (Inr M, w')"
    by blast
  have a1: "t1 = running_averages [m1]"
    using metrics_table_Inr(1) [OF t1] by simp
  have a2: "t2 = running_averages [m1, m2]"
    using metrics_table_Inr(1) [OF t2] by simp
  have a3: "t3 = running_averages [m1, m2, m3]"
    using metrics_table_Inr(1) [OF t3] by simp
  have a4: "t4 = running_averages [m1, m2, m3, m4]"
    using metrics_table_Inr(1) [OF t4] by simp
  have a5: "t5 = running_averages [m1, m2, m3, m4, m5]"
    using metrics_table_Inr(1) [OF t5] by simp
  have present: "\<forall>nm \<in> set (map fst m1). \<forall>run \<in> set [m1, m2, m3, m4, m5]. map_of run nm \<noteq> None"
    using metrics_table_Inr(2) [OF t5] by simp
  from r5 have "M = [(run_name ft 123, m1), (run_name ft 184, m2), (run_name ft 202, m3),
                (run_name ft 289, m4), (run_name ft 732, m5)]"
    and "w' = v5\<lparr>stdout := stdout v5 @ [PrintAfterRuns 5 (name ft), t5]\<rparr>"
    by simp_all
  with s1 s2 s3 s4 s5 present
  show "\<exists>m1 v1 m2 v2 m3 v3 m4 v4 m5 v5.
           test_function lib smp ft 123 w = (Inr m1, v1) \<and>
           test_function lib smp ft 184
             (v1\<lparr>stdout := stdout v1 @
                [PrintAfterRuns 1 (name ft), running_averages [m1]]\<rparr>) = (Inr m2, v2) \<and>
           test_function lib smp ft 202
             (v2\<lparr>stdout := stdout v2 @
                [PrintAfterRuns 2 (name ft), running_averages [m1, m2]]\<rparr>) = (Inr m3, v3) \<and>
           test_function lib smp ft 289
             (v3\<lparr>stdout := stdout v3 @
                [PrintAfterRuns 3 (name ft), running_averages [m1, m2, m3]]\<rparr>) = (Inr m4, v4) \<and>
           test_function lib smp ft 732
             (v4\<lparr>stdout := stdout v4 @
                [PrintAfterRuns 4 (name ft), running_averages [m1, m2, m3, m4]]\<rparr>)
             = (Inr m5, v5) \<and>
           M = [(run_name ft 123, m1), (run_name ft 184, m2), (run_name ft 202, m3),
                (run_name ft 289, m4), (run_name ft 732, m5)] \<and>
           w' = v5\<lparr>stdout := stdout v5 @
                  [PrintAfterRuns 5 (name ft), running_averages [m1, m2, m3, m4, m5]]\<rparr> \<and>
           (\<forall>nm \<in> set (map fst m1). \<forall>run \<in> set [m1, m2, m3, m4, m5]. map_of run nm \<noteq> None)"
    unfolding a1 a2 a3 a4 a5 by blast
next
  fix seed w0 m v
  assume "test_function lib smp ft seed w0 = (Inr m, v)"
  then show "\<exists>d w1 mf g1 hf g2 lar g3 nlar g4
            f1 a1 mean1 var1 b1 s1 f2 a2 mean2 var2 b2 s2
            f3 a3 mean3 var3 b3 s3 f4 a4 mean4 var4 b4 s4.
           generate_data smp ft 1000 (w0\<lparr>rng := random_seed smp seed\<rparr>) = (Inr d, w1) \<and>
           MultiFidelityDeepGP lib (X_train d) (Y_train d) 5000 (rng w1) = (Inr mf, g1) \<and>
           HighFidelityGp lib (X_train d) (Y_train d) g1 = (Inr hf, g2) \<and>
           LinearAutoRegressiveModel lib (X_train d) (Y_train d) g2 = (Inr lar, g3) \<and>
           NonLinearAutoRegressiveModel lib (X_train d) (Y_train d) g3 = (Inr nlar, g4) \<and>
           optimize lib hf g4 = (Inr f1, a1) \<and>
           predict lib f1 (x_test d) a1 = (Inr (mean1, var1), b1) \<and>
           calculate_metrics (y_test d) mean1 var1 = Inr s1 \<and>
           standard_metrics (y_test d) mean1 var1 s1 \<and>
           optimize lib lar b1 = (Inr f2, a2) \<and>
           predict lib f2 (x_test d) a2 = (Inr (mean2, var2), b2) \<and>
           calculate_metrics (y_test d) mean2 var2 = Inr s2 \<and>
           standard_metrics (y_test d) mean2 var2 s2 \<and>
           optimize lib nlar b2 = (Inr f3, a3) \<and>
           predict lib f3 (x_test d) a3 = (Inr (mean3, var3), b3) \<and>
           calculate_metrics (y_test d) mean3 var3 = Inr s3 \<and>
           standard_metrics (y_test d) mean3 var3 s3 \<and>
           optimize lib (mf\<lparr>model_name := ''mf_dgp_fix_lf_mean''\<rparr>) b3 = (Inr f4, a4) \<and>
           predict lib f4 (x_test d) a4 = (Inr (mean4, var4), b4) \<and>
           calculate_metrics (y_test d) mean4 var4 = Inr s4 \<and>
           standard_metrics (y_test d) mean4 var4 s4 \<and>
           m = dict_set (dict_set (dict_set (dict_set [] (model_name f1) s1)
                 (model_name f2) s2) (model_name f3) s3) (model_name f4) s4 \<and>
           v = w1\<lparr>rng := b4,
                  stdout := stdout w1 @ model_lines (model_name f1) (r2 s1) @
                    model_lines (model_name f2) (r2 s2) @ model_lines (model_name f3) (r2 s3) @
                    model_lines (model_name f4) (r2 s4)\<rparr>"
    by (rule test_function_steps)
qed

theorem do_benchmark_runs_witness:
  "\<exists>w'. do_benchmark exact_library_ex sampler_ex unscaled_ex world_ex =
          (Inr [(''123[2, 1]'', first_scores_ex), (''184[2, 1]'', first_scores_ex),
                (''202[2, 1]'', later_scores_ex), (''289[2, 1]'', later_scores_ex),
                (''732[2, 1]'', later_scores_ex)], w') \<and>
        last (stdout w') =
          PrintTable [''model'', ''r2'', ''mnll'', ''rmse'']
            [(''hf_gp'', [Fin 1, Fin (ln (sqrt (2 * pi))), Fin 0]),
             (''ar1'', [Fin 1, Fin (ln (sqrt (2 * pi)) + 3 * ln 2 / 5), Fin 0]),
             (''nargp'', [Fin 1, Fin (ln (sqrt (2 * pi)) + 3 * ln 2 / 5), Fin 0]),
             (''mf_dgp_fix_lf_mean'', [Fin 1, Fin (ln (sqrt (2 * pi)) + 3 * ln 2 / 5), Fin 0])]"
proof -
  let ?lib = exact_library_ex
  have tf: "\<exists>v. test_function ?lib sampler_ex unscaled_ex seed w =
                 (Inr (if seed + 5 < 200 then first_scores_ex else later_scores_ex), v)" for seed w
    by (rule test_function_exact_ex)
  have "\<forall>seed w. \<exists>m v. test_function ?lib sampler_ex unscaled_ex seed w = (Inr m, v) \<and>
          map fst m = names_ex"
  proof (intro allI)
    fix seed w
    from tf [of seed w] obtain v where
      "test_function ?lib sampler_ex unscaled_ex seed w =
         (Inr (if seed + 5 < 200 then first_scores_ex else later_scores_ex), v)" by blast
    then show "\<exists>m v. test_function ?lib sampler_ex unscaled_ex seed w = (Inr m, v) \<and>
                 map fst m = names_ex"
      by (auto simp: scores_ex_names)
  qed
  then have "\<exists>M w'. run_seeds ?lib sampler_ex unscaled_ex 0 seeds [] world_ex = (Inr M, w')"
    by (rule run_seeds_returns) simp
  then obtain M w' where
    ret: "do_benchmark ?lib sampler_ex unscaled_ex world_ex = (Inr M, w')"
    by (auto simp: do_benchmark_def)
  have is_first: "m = first_scores_ex"
    if "test_function ?lib sampler_ex unscaled_ex seed w = (Inr m, v)" "seed + 5 < 200"
    for seed w m v
    using tf [of seed w] that by auto
  have is_later: "m = later_scores_ex"
    if "test_function ?lib sampler_ex unscaled_ex seed w = (Inr m, v)" "\<not> seed + 5 < 200"
    for seed w m v
    using tf [of seed w] that by auto
  from do_benchmark_runs [OF ret] obtain m1 v1 m2 v2 m3 v3 m4 v4 m5 v5 where
    s1: "test_function ?lib sampler_ex unscaled_ex 123 world_ex = (Inr m1, v1)"
    and s2: "test_function ?lib sampler_ex unscaled_ex 184
             (v1\<lparr>stdout := stdout v1 @
                [PrintAfterRuns 1 (name unscaled_ex), running_averages [m1]]\<rparr>) = (Inr m2, v2)"
    and s3: "test_function ?lib sampler_ex unscaled_ex 202
             (v2\<lparr>stdout := stdout v2 @
                [PrintAfterRuns 2 (name unscaled_ex), running_averages [m1, m2]]\<rparr>) = (Inr m3, v3)"
    and s4: "test_function ?lib sampler_ex unscaled_ex 289
             (v3\<lparr>stdout := stdout v3 @
                [PrintAfterRuns 3 (name unscaled_ex), running_averages [m1, m2, m3]]\<rparr>)
             = (Inr m4, v4)"
    and s5: "test_function ?lib sampler_ex unscaled_ex 732
             (v4\<lparr>stdout := stdout v4 @
                [PrintAfterRuns 4 (name unscaled_ex), running_averages [m1, m2, m3, m4]]\<rparr>)
             = (Inr m5, v5)"
    and M: "M = [(run_name unscaled_ex 123, m1), (run_name unscaled_ex 184, m2),
                 (run_name unscaled_ex 202, m3), (run_name unscaled_ex 289, m4),
                 (run_name unscaled_ex 732, m5)]"
    and w': "w' = v5\<lparr>stdout := stdout v5 @
                  [PrintAfterRuns 5 (name unscaled_ex),
                   running_averages [m1, m2, m3, m4, m5]]\<rparr>"
    by blast
  have m: "m1 = first_scores_ex" "m2 = first_scores_ex" "m3 = later_scores_ex"
    "m4 = later_scores_ex" "m5 = later_scores_ex"
    using is_first [OF s1] is_first [OF s2] is_later [OF s3] is_later [OF s4] is_later [OF s5]
    by simp_all
  have "M = [(''123[2, 1]'', first_scores_ex), (''184[2, 1]'', first_scores_ex),
             (''202[2, 1]'', later_scores_ex), (''289[2, 1]'', later_scores_ex),
             (''732[2, 1]'', later_scores_ex)]"
    unfolding M m by (simp add: run_name_ex)
  moreover have "last (stdout w') =
      running_averages
        [first_scores_ex, first_scores_ex, later_scores_ex, later_scores_ex, later_scores_ex]"
    unfolding w' m by simp
  ultimately show ?thesis using ret unfolding running_averages_ex by blast
qed

text \<open>
  Claim C8. If, in run k, after the first j models were fitted and scored,
  \<open>optimize()\<close> or \<open>predict()\<close> of the next model raises, then \<open>benchmark_models\<close>,
  \<open>test_function\<close> and \<open>do_benchmark\<close> all end with that exception, in the state the
  failing call left: nothing more is run or printed. The dictionary of
  \<open>benchmark_models\<close> then holds the entries of the first j models only, and the one of
  \<open>do_benchmark\<close> the first k runs only.
\<close>

theorem exceptions_propagate:
  assumes pre_runs: "run_seeds lib smp ft 0 (take k seeds) [] w = (Inr M, wk)"
    and k: "k < length seeds"
    and data: "generate_data smp ft 1000 (wk\<lparr>rng := random_seed smp (seeds ! k)\<rparr>) = (Inr d, w1)"
    and mf: "MultiFidelityDeepGP lib (X_train d) (Y_train d) 5000 (rng w1) = (Inr mf, g1)"
    and hf: "HighFidelityGp lib (X_train d) (Y_train d) g1 = (Inr hf, g2)"
    and lar: "LinearAutoRegressiveModel lib (X_train d) (Y_train d) g2 = (Inr lar, g3)"
    and nlar: "NonLinearAutoRegressiveModel lib (X_train d) (Y_train d) g3 = (Inr nlar, g4)"
    and models: "models = [hf, lar, nlar, mf\<lparr>model_name := ''mf_dgp_fix_lf_mean''\<rparr>]"
    and before: "benchmark_models lib (take j models) (x_test d) (y_test d) (w1\<lparr>rng := g4\<rparr>)
                   = (Inr Mj, wj)"
    and j: "j < length models"
    and raises: "optimize lib (models ! j) (rng wj) = (Inl e, g) \<or>
                 (\<exists>fitted g'. optimize lib (models ! j) (rng wj) = (Inr fitted, g') \<and>
                               predict lib fitted (x_test d) g' = (Inl e, g))"
  shows "benchmark_models lib models (x_test d) (y_test d) (w1\<lparr>rng := g4\<rparr>)
           = (Inl (e, Mj), wj\<lparr>rng := g\<rparr>) \<and>
         test_function lib smp ft (seeds ! k) wk = (Inl e, wj\<lparr>rng := g\<rparr>) \<and>
         do_benchmark lib smp ft w = (Inl (e, M), wj\<lparr>rng := g\<rparr>)"
proof -
  have split: "models = take j models @ (models ! j) # drop (Suc j) models"
    using j by (rule id_take_nth_drop)
  have "benchmark_loop lib (take j models @ (models ! j) # drop (Suc j) models)
          (x_test d) (y_test d) [] (w1\<lparr>rng := g4\<rparr>)
        = benchmark_loop lib ((models ! j) # drop (Suc j) models) (x_test d) (y_test d) Mj wj"
    using before unfolding benchmark_models_def by (rule benchmark_loop_append)
  also have "\<dots> = (Inl (e, Mj), wj\<lparr>rng := g\<rparr>)"
    using raises by (rule benchmark_loop_raises)
  finally have bm: "benchmark_models lib models (x_test d) (y_test d) (w1\<lparr>rng := g4\<rparr>)
                      = (Inl (e, Mj), wj\<lparr>rng := g\<rparr>)"
    unfolding benchmark_models_def using split by simp
  have tf: "test_function lib smp ft (seeds ! k) wk = (Inl e, wj\<lparr>rng := g\<rparr>)"
    unfolding test_function_def using data mf hf lar nlar bm [unfolded models]
    by (simp add: Let_def)
  have "seeds = take k seeds @ (seeds ! k) # drop (Suc k) seeds"
    using k by (rule id_take_nth_drop)
  then have "do_benchmark lib smp ft w =
               run_seeds lib smp ft 0 (take k seeds @ (seeds ! k) # drop (Suc k) seeds) [] w"
    unfolding do_benchmark_def by simp
  also have "\<dots> = run_seeds lib smp ft (0 + length (take k seeds))
                     ((seeds ! k) # drop (Suc k) seeds) M wk"
    using pre_runs by (rule run_seeds_append)
  also have "\<dots> = (Inl (e, M), wj\<lparr>rng := g\<rparr>)"
    using tf by (rule run_seeds_raises)
  finally show ?thesis using bm tf by simp
qed

theorem exceptions_propagate_witness:
  "\<exists>d w1 mm wj.
     generate_data sampler_ex unscaled_ex 1000 (world_ex\<lparr>rng := 123\<rparr>) = (Inr d, w1) \<and>
     benchmark_models failing_library_ex (take 1 models_ex) (x_test d) (y_test d) w1
       = (Inr [(''hf_gp'', mm)], wj) \<and>
     optimize failing_library_ex (models_ex ! 1) (rng wj)
       = (Inl (LibraryError ''optimization failed''), rng wj) \<and>
     benchmark_models failing_library_ex models_ex (x_test d) (y_test d) w1
       = (Inl (LibraryError ''optimization failed'', [(''hf_gp'', mm)]), wj) \<and>
     do_benchmark failing_library_ex sampler_ex unscaled_ex world_ex
       = (Inl (LibraryError ''optimization failed'', []), wj)"
proof -
  let ?lib = failing_library_ex
  let ?e = "LibraryError ''optimization failed''"
  have seed: "random_seed sampler_ex (seeds ! 0) = 123"
    by (simp add: sampler_ex_def seeds_def)
  from generate_data_unscaled_1000 [of "world_ex\<lparr>rng := 123\<rparr>"]
  obtain d w1 where
    gd: "generate_data sampler_ex unscaled_ex 1000 (world_ex\<lparr>rng := 123\<rparr>) = (Inr d, w1)"
    and len: "length (y_test d) = 1000" and fin: "all_finite (y_test d)"
    and xt: "length (rows (x_test d)) = 1000"
    by blast
  from calculate_metrics_ex [OF len fin] obtain mm where
    cm: "calculate_metrics (y_test d) (replicate 1000 (Fin 0)) (replicate 1000 (Fin 1)) = Inr mm"
    by blast
  define wj where
    "wj = w1\<lparr>rng := rng w1 + 1,
              stdout := stdout w1 @ model_lines ''hf_gp'' (r2 mm)\<rparr>"
  have pre_runs: "run_seeds ?lib sampler_ex unscaled_ex 0 (take 0 seeds) [] world_ex
                    = (Inr [], world_ex)"
    by simp
  have k: "0 < length seeds" by (simp add: seeds_def)
  have data: "generate_data sampler_ex unscaled_ex 1000
                (world_ex\<lparr>rng := random_seed sampler_ex (seeds ! 0)\<rparr>) = (Inr d, w1)"
    using gd by (simp add: seed)
  have mf: "MultiFidelityDeepGP ?lib (X_train d) (Y_train d) 5000 (rng w1)
              = (Inr \<lparr>model_name = ''mf_dgp'', model_state = ()\<rparr>, rng w1)"
    and hf: "HighFidelityGp ?lib (X_train d) (Y_train d) (rng w1) = (Inr (models_ex ! 0), rng w1)"
    and lar: "LinearAutoRegressiveModel ?lib (X_train d) (Y_train d) (rng w1)
                = (Inr (models_ex ! 1), rng w1)"
    and nlar: "NonLinearAutoRegressiveModel ?lib (X_train d) (Y_train d) (rng w1)
                = (Inr (models_ex ! 2), rng w1)"
    by (simp_all add: failing_library_ex_def library_ex_def models_ex_def)
  have models: "models_ex = [models_ex ! 0, models_ex ! 1, models_ex ! 2,
      \<lparr>model_name = ''mf_dgp'', model_state = ()\<rparr>\<lparr>model_name := ''mf_dgp_fix_lf_mean''\<rparr>]"
    by (simp add: models_ex_def)
  have before: "benchmark_models ?lib (take 1 models_ex) (x_test d) (y_test d)
                  (w1\<lparr>rng := rng w1\<rparr>) = (Inr [(''hf_gp'', mm)], wj)"
    by (simp add: benchmark_models_def models_ex_def failing_library_ex_def library_ex_def
          xt cm dict_set_def wj_def)
  have j: "1 < length models_ex" by (simp add: models_ex_def)
  have raises: "optimize ?lib (models_ex ! 1) (rng wj) = (Inl ?e, rng wj) \<or>
                (\<exists>fitted g'. optimize ?lib (models_ex ! 1) (rng wj) = (Inr fitted, g') \<and>
                              predict ?lib fitted (x_test d) g' = (Inl ?e, rng wj))"
    by (simp add: failing_library_ex_def library_ex_def models_ex_def)
  from exceptions_propagate [OF pre_runs k data mf hf lar nlar models before j raises]
  have "benchmark_models ?lib models_ex (x_test d) (y_test d) w1 = (Inl (?e, [(''hf_gp'', mm)]), wj)"
    and "do_benchmark ?lib sampler_ex unscaled_ex world_ex = (Inl (?e, []), wj)"
    by simp_all
  moreover have "optimize ?lib (models_ex ! 1) (rng wj) = (Inl ?e, rng wj)"
    by (simp add: failing_library_ex_def library_ex_def models_ex_def)
  moreover from before have "benchmark_models ?lib (take 1 models_ex) (x_test d) (y_test d) w1
       = (Inr [(''hf_gp'', mm)], wj)"
    by simp
  ultimately show ?thesis using gd by (intro exI [of _ d] exI [of _ w1] exI [of _ mm] exI [of _ wj] conjI)
qed

end
